theory Spec2Isabelle
  imports Main
begin

section \<open>QTextPad: the document state of the editor window\<close>

text \<open>
  A shallow embedding of \<^verbatim>\<open>QTextPadWindow\<close> (\<^verbatim>\<open>src/qtextpadwindow.cpp\<close>): the
  members the load, save and metadata operations read and write, the widgets whose text or
  check mark they set, and the command history. Each member function is a function on
  the window state; a function returning \<^verbatim>\<open>bool\<close> returns the pair of its result and
  the new state. Everything the window asks of the outside (the file system, the dialogs,
  the codec registry, the file-type detector) is a field of the environment.

  \<^verbatim>\<open>QString\<close> is modelled as \<open>string\<close>, \<^verbatim>\<open>QByteArray\<close> as a list of \<open>char\<close>
  (a byte each), and \<^verbatim>\<open>tr\<close> as the identity (the untranslated text).
\<close>

subsection \<open>Values\<close>

type_synonym QString = string
type_synonym QByteArray = "char list"

text \<open>\<^verbatim>\<open>enum LineEndingMode { CROnly, LFOnly, CRLF }\<close>\<close>

datatype LineEndingMode = CROnly | LFOnly | CRLF

text \<open>
  \<^verbatim>\<open>KSyntaxHighlighting::Definition\<close>: what the window reads of it is \<^verbatim>\<open>isValid()\<close>
  and \<^verbatim>\<open>translatedName()\<close>. \<^verbatim>\<open>SyntaxTextEdit::nullSyntax()\<close> is the invalid definition.
\<close>

record Definition =
  isValid :: bool
  translatedName :: QString

definition nullSyntax :: Definition where
  "nullSyntax = \<lparr>isValid = False, translatedName = []\<rparr>"

text \<open>
  \<^verbatim>\<open>QTextCodec\<close>: its name and its streaming decoder. \<^verbatim>\<open>makeDecoder()\<close> gives a
  decoder with no pending bytes; \<^verbatim>\<open>toUnicode\<close> takes the bytes held back from the
  previous block and the next block, and gives the decoded text and the bytes it holds back.
\<close>

record QTextCodec =
  codec_name :: QString
  toUnicode :: "QByteArray \<Rightarrow> QByteArray \<Rightarrow> QString \<times> QByteArray"

text \<open>The result of \<^verbatim>\<open>FileDetection::detect\<close> (\<^verbatim>\<open>ftdetect.h\<close>), as the window reads it.\<close>

record FileDetection =
  lineEndings :: LineEndingMode
  textCodec :: QTextCodec
  bomOffset :: nat

text \<open>\<^verbatim>\<open>QMessageBox::StandardButton\<close>, the three the window offers.\<close>

datatype StandardButton = Yes | No | Cancel

subsection \<open>The command history\<close>

text \<open>
  Modelled from the spec: the commands of \<^verbatim>\<open>undocommands.h\<close>, which is not among the
  sources. A metadata command carries the old and the new value of the encoding or of the
  line-ending mode; a text-edit command wraps one change of the text buffer and delegates
  to the buffer's own undo and redo.
\<close>

datatype QUndoCommand =
    TextEditorUndoCommand
  | ChangeEncodingCommand QString QString
  | ChangeLineEndingCommand LineEndingMode LineEndingMode

text \<open>
  Modelled from the spec: the Command History of sections 3 and 4.2 (\<^verbatim>\<open>QUndoStack\<close>, a
  class of the Qt library, not among the sources): the commands, the cursor (current index)
  and the clean index.
\<close>

record QUndoStack =
  command_list :: "QUndoCommand list"
  index :: nat
  clean_index :: int

text \<open>
  Modelled from the spec: \<^verbatim>\<open>push\<close> of section 4.2 truncates the commands after the
  cursor, appends and advances the cursor (the command is executed by the caller,
  \<open>addUndoCommand\<close> below). The spec's property that the document is modified after any
  push needs the clean index to be given up (\<open>- 1\<close>) when the truncation deletes the clean
  state, as \<^verbatim>\<open>QUndoStack\<close> does.
\<close>

definition stack_push :: "QUndoCommand \<Rightarrow> QUndoStack \<Rightarrow> QUndoStack" where
  "stack_push cmd s =
     \<lparr>command_list = take (index s) (command_list s) @ [cmd],
      index = index s + 1,
      clean_index = (if int (index s) < clean_index s then - 1 else clean_index s)\<rparr>"

text \<open>Modelled from the spec: \<^verbatim>\<open>markClean\<close> of section 4.2 (\<^verbatim>\<open>QUndoStack::setClean\<close>) sets
  the clean index to the cursor.\<close>

definition stack_setClean :: "QUndoStack \<Rightarrow> QUndoStack" where
  "stack_setClean s = s\<lparr>clean_index := int (index s)\<rparr>"

text \<open>Modelled from the spec: \<^verbatim>\<open>clear\<close> of section 4.2 empties the commands and resets both
  indices to 0.\<close>

definition stack_clear :: "QUndoStack \<Rightarrow> QUndoStack" where
  "stack_clear s = \<lparr>command_list = [], index = 0, clean_index = 0\<rparr>"

text \<open>Modelled from the spec: the history is clean when the cursor is at the clean index
  (section 3).\<close>

definition isClean :: "QUndoStack \<Rightarrow> bool" where
  "isClean s = (clean_index s = int (index s))"

subsection \<open>Check marks of a menu\<close>

text \<open>
  An exclusive \<^verbatim>\<open>QActionGroup\<close>: the data of its actions in menu order, and the position
  of the checked one. The loops of the setters check the first action whose data is the
  new value and stop.
\<close>

record 'a QActionGroup =
  actions :: "'a list"
  checkedAction :: "nat option"

fun firstIndex :: "'a \<Rightarrow> 'a list \<Rightarrow> nat option" where
  "firstIndex x [] = None"
| "firstIndex x (y # ys) =
     (if y = x then Some 0 else map_option Suc (firstIndex x ys))"

definition checkFirst :: "'a \<Rightarrow> 'a QActionGroup \<Rightarrow> 'a QActionGroup" where
  "checkFirst x g =
     (case firstIndex x (actions g) of
        None \<Rightarrow> g
      | Some i \<Rightarrow> g\<lparr>checkedAction := Some i\<rparr>)"

subsection \<open>The window\<close>

text \<open>
  What the window does that is seen from outside or in a fixed order: the dialogs it
  shows, the messages it logs, the calls of its setters, of the editor and of the history,
  and the lookups of a syntax definition. The window appends each to its \<open>trace\<close>.
\<close>

datatype event =
    MsgCritical QString
  | MsgQuestion QString
  | FileDialog QString
  | QWarning QString
  | QDebug QString
  | CallSetSyntax Definition
  | CallSetEncoding QString
  | CallSetLineEndingMode LineEndingMode
  | EditorClear
  | EditorSetPlainText QString
  | ClearUndoRedoStacks
  | UndoStackPush QUndoCommand
  | UndoStackClear
  | UndoStackSetClean
  | DefinitionForFileMagic QString
  | DefinitionForFileName QString
  | CallSaveDocumentTo QString
  | SettingsSetWindowSize

text \<open>
  The editor (\<^verbatim>\<open>m_editor\<close>) is its text, its syntax definition and the undo and redo
  stacks of its \<^verbatim>\<open>QTextDocument\<close> (the earlier and the undone texts). The widgets are the
  text they show.
\<close>

record window =
  m_editor_plainText :: QString
  m_editor_syntax :: Definition
  m_editor_undoStack :: "QString list"
  m_editor_redoStack :: "QString list"
  m_textEncoding :: QString
  m_lineEndingMode :: LineEndingMode
  m_openFilename :: QString
  m_documentTitle :: QString
  m_undoStack :: QUndoStack
  m_syntaxButton :: QString
  m_encodingButton :: QString
  m_crlfLabel :: QString
  m_syntaxActions :: "Definition QActionGroup"
  m_encodingActions :: "QString QActionGroup"
  m_lineEndingActions :: "LineEndingMode QActionGroup"
  m_reloadAction :: bool
  windowTitle :: QString
  trace :: "event list"

text \<open>
  The outside: \<open>files\<close> is what \<^verbatim>\<open>QFile::open\<close> for reading finds (\<open>None\<close> when the file
  cannot be opened); \<open>question\<close> is the button the user presses on a
  \<^verbatim>\<open>QMessageBox::question\<close> with the given text; \<open>getSaveFileName\<close> is the path chosen in
  the file dialog with the given caption (empty when the dialog is dismissed);
  \<open>codecForName\<close> is \<^verbatim>\<open>KCharsets::codecForName(name, ok)\<close>, the codec pointer
  (\<open>None\<close> for null) and the flag \<^verbatim>\<open>ok\<close>; \<open>win32\<close> is \<^verbatim>\<open>#ifdef _WIN32\<close>.
\<close>

record env =
  files :: "QString \<Rightarrow> QByteArray option"
  question :: "QString \<Rightarrow> StandardButton"
  getSaveFileName :: "QString \<Rightarrow> QString"
  codecForName :: "QString \<Rightarrow> QTextCodec option \<times> bool"
  detect :: "QByteArray \<Rightarrow> QString \<Rightarrow> FileDetection"
  definitionForFileMagic :: "QString \<Rightarrow> Definition"
  definitionForFileName :: "QString \<Rightarrow> Definition"
  win32 :: bool

definition LARGE_FILE_SIZE :: nat where
  "LARGE_FILE_SIZE = 10 * 1024 * 1024"

definition DETECTION_SIZE :: nat where
  "DETECTION_SIZE = 1 * 1024"

definition DECODE_BLOCK_SIZE :: nat where
  "DECODE_BLOCK_SIZE = 16 * 1024"

definition emit :: "event \<Rightarrow> window \<Rightarrow> window" where
  "emit e w = w\<lparr>trace := trace w @ [e]\<rparr>"

subsection \<open>Title and dirty flag\<close>

definition isDocumentModified :: "window \<Rightarrow> bool" where
  "isDocumentModified w = (\<not> isClean (m_undoStack w))"

text \<open>The n-dash of the title, in UTF-8.\<close>

definition ndash :: QString where
  "ndash = [CHR 0xE2, CHR 0x80, CHR 0x93]"

definition updateTitle :: "window \<Rightarrow> window" where
  "updateTitle w =
     (let title = m_documentTitle w @ '' '' @ ndash @ '' qtextpad'';
          title = (if isDocumentModified w then ''* '' @ title else title)
      in w\<lparr>windowTitle := title\<rparr>)"

text \<open>
  The constructor connects \<^verbatim>\<open>QUndoStack::cleanChanged\<close> to \<^verbatim>\<open>updateTitle\<close>: an
  operation of the history that changes \<^verbatim>\<open>isClean()\<close> updates the title.
\<close>

definition onUndoStack :: "(QUndoStack \<Rightarrow> QUndoStack) \<Rightarrow> window \<Rightarrow> window" where
  "onUndoStack f w =
     (let was_clean = isClean (m_undoStack w);
          w = w\<lparr>m_undoStack := f (m_undoStack w)\<rparr>
      in if isClean (m_undoStack w) \<noteq> was_clean then updateTitle w else w)"

subsection \<open>The setters\<close>

definition setSyntax :: "Definition \<Rightarrow> window \<Rightarrow> window" where
  "setSyntax syn w =
     (let w = emit (CallSetSyntax syn) w;
          w = w\<lparr>m_editor_syntax := syn\<rparr>;
          w = (if isValid syn then w\<lparr>m_syntaxButton := translatedName syn\<rparr>
               else w\<lparr>m_syntaxButton := ''Plain Text''\<rparr>)
      in w\<lparr>m_syntaxActions := checkFirst syn (m_syntaxActions w)\<rparr>)"

definition setEncoding :: "env \<Rightarrow> QString \<Rightarrow> window \<Rightarrow> window" where
  "setEncoding E codecName w =
     (let w = emit (CallSetEncoding codecName) w;
          w = w\<lparr>m_textEncoding := codecName\<rparr>;
          w = w\<lparr>m_encodingActions := (m_encodingActions w)\<lparr>checkedAction := None\<rparr>\<rparr>;
          ok = snd (codecForName E codecName);
          w = (if \<not> ok
               then (emit (QWarning ''Invalid codec selected'') w)
                      \<lparr>m_encodingButton := ''Invalid ('' @ codecName @ '')''\<rparr>
               else w\<lparr>m_encodingButton := codecName\<rparr>)
      in w\<lparr>m_encodingActions := checkFirst codecName (m_encodingActions w)\<rparr>)"

definition setLineEndingMode :: "LineEndingMode \<Rightarrow> window \<Rightarrow> window" where
  "setLineEndingMode mode w =
     (let w = emit (CallSetLineEndingMode mode) w;
          w = w\<lparr>m_lineEndingMode := mode\<rparr>;
          w = (case mode of
                 CROnly \<Rightarrow> w\<lparr>m_crlfLabel := ''CR''\<rparr>
               | LFOnly \<Rightarrow> w\<lparr>m_crlfLabel := ''LF''\<rparr>
               | CRLF \<Rightarrow> w\<lparr>m_crlfLabel := ''CRLF''\<rparr>)
      in w\<lparr>m_lineEndingActions := checkFirst mode (m_lineEndingActions w)\<rparr>)"

subsection \<open>Undoable changes of the metadata\<close>

text \<open>
  \<^verbatim>\<open>QTextDocument::redo\<close>: with nothing to redo it does nothing.
\<close>

definition document_redo :: "window \<Rightarrow> window" where
  "document_redo w =
     (case m_editor_redoStack w of
        [] \<Rightarrow> w
      | t # ts \<Rightarrow> w\<lparr>m_editor_undoStack := m_editor_plainText w # m_editor_undoStack w,
                    m_editor_plainText := t,
                    m_editor_redoStack := ts\<rparr>)"

text \<open>
  Modelled from the spec: \<^verbatim>\<open>redo()\<close> of the commands of \<^verbatim>\<open>undocommands.h\<close>. Applying a
  metadata command is calling the setter with the new value.
\<close>

fun command_redo :: "env \<Rightarrow> QUndoCommand \<Rightarrow> window \<Rightarrow> window" where
  "command_redo E TextEditorUndoCommand w = document_redo w"
| "command_redo E (ChangeEncodingCommand old new) w = setEncoding E new w"
| "command_redo E (ChangeLineEndingCommand old new) w = setLineEndingMode new w"

text \<open>\<^verbatim>\<open>m_undoStack->push(command)\<close>: the history executes the command and records it.\<close>

definition addUndoCommand :: "env \<Rightarrow> QUndoCommand \<Rightarrow> window \<Rightarrow> window" where
  "addUndoCommand E command w =
     (let w = emit (UndoStackPush command) w;
          w = command_redo E command w
      in onUndoStack (stack_push command) w)"

definition changeEncoding :: "env \<Rightarrow> QString \<Rightarrow> window \<Rightarrow> window" where
  "changeEncoding E encoding w =
     (if m_openFilename w = []
      then setEncoding E encoding w
      else (let command = ChangeEncodingCommand (m_textEncoding w) encoding
            in addUndoCommand E command w))"

definition changeLineEndingMode :: "env \<Rightarrow> LineEndingMode \<Rightarrow> window \<Rightarrow> window" where
  "changeLineEndingMode E mode w =
     (if m_openFilename w = []
      then setLineEndingMode mode w
      else (let command = ChangeLineEndingCommand (m_lineEndingMode w) mode
            in addUndoCommand E command w))"

definition nextLineEndingMode :: "env \<Rightarrow> window \<Rightarrow> window" where
  "nextLineEndingMode E w =
     (case m_lineEndingMode w of
        CROnly \<Rightarrow> changeLineEndingMode E LFOnly w
      | LFOnly \<Rightarrow> changeLineEndingMode E CRLF w
      | CRLF \<Rightarrow> changeLineEndingMode E CROnly w)"

subsection \<open>The editor\<close>

text \<open>
  \<^verbatim>\<open>QPlainTextEdit::clear\<close> and \<^verbatim>\<open>setPlainText\<close> replace the whole text and reset
  the undo and redo history of the document;
  \<^verbatim>\<open>QTextDocument::clearUndoRedoStacks\<close> empties both stacks.
\<close>

definition editor_clear :: "window \<Rightarrow> window" where
  "editor_clear w =
     (emit EditorClear w)
       \<lparr>m_editor_plainText := [], m_editor_undoStack := [], m_editor_redoStack := []\<rparr>"

definition editor_setPlainText :: "QString \<Rightarrow> window \<Rightarrow> window" where
  "editor_setPlainText t w =
     (emit (EditorSetPlainText t) w)
       \<lparr>m_editor_plainText := t, m_editor_undoStack := [], m_editor_redoStack := []\<rparr>"

definition clearUndoRedoStacks :: "window \<Rightarrow> window" where
  "clearUndoRedoStacks w =
     (emit ClearUndoRedoStacks w)\<lparr>m_editor_undoStack := [], m_editor_redoStack := []\<rparr>"

definition undoStack_clear :: "window \<Rightarrow> window" where
  "undoStack_clear w = onUndoStack stack_clear (emit UndoStackClear w)"

definition undoStack_setClean :: "window \<Rightarrow> window" where
  "undoStack_setClean w = onUndoStack stack_setClean (emit UndoStackSetClean w)"

text \<open>\<^verbatim>\<open>QFileInfo::fileName\<close>: the path after its last \<^verbatim>\<open>/\<close>.\<close>

definition fileName :: "QString \<Rightarrow> QString" where
  "fileName path = rev (takeWhile (\<lambda>c. c \<noteq> CHR ''/'') (rev path))"

subsection \<open>Saving\<close>

text \<open>
  \<^verbatim>\<open>saveDocumentTo\<close> is the source's stub (\<^verbatim>\<open>// TODO: Encode and save to file\<close>): it
  writes nothing and returns \<^verbatim>\<open>true\<close>.
\<close>

definition saveDocumentTo :: "QString \<Rightarrow> window \<Rightarrow> bool \<times> window" where
  "saveDocumentTo filename w = (True, emit (CallSaveDocumentTo filename) w)"

text \<open>The common end of \<^verbatim>\<open>saveDocument\<close> and \<^verbatim>\<open>saveDocumentAs\<close>, from the call of
  \<^verbatim>\<open>saveDocumentTo\<close> on.\<close>

definition saveAndRecord :: "QString \<Rightarrow> window \<Rightarrow> bool \<times> window" where
  "saveAndRecord path w =
     (let (saved, w) = saveDocumentTo path w
      in if \<not> saved then (False, w)
         else (let w = w\<lparr>m_openFilename := path\<rparr>;
                   w = w\<lparr>m_documentTitle := fileName (m_openFilename w)\<rparr>;
                   w = undoStack_setClean w;
                   w = clearUndoRedoStacks w
               in (True, updateTitle w)))"

definition saveDocument :: "env \<Rightarrow> window \<Rightarrow> bool \<times> window" where
  "saveDocument E w =
     (let (path, w) =
            (if m_openFilename w = []
             then (getSaveFileName E ''Save File'', emit (FileDialog ''Save File'') w)
             else (m_openFilename w, w))
      in if path = [] then (False, w) else saveAndRecord path w)"

definition saveDocumentAs :: "env \<Rightarrow> window \<Rightarrow> bool \<times> window" where
  "saveDocumentAs E w =
     (let path = getSaveFileName E ''Save File As'';
          w = emit (FileDialog ''Save File As'') w
      in if path = [] then (False, w) else saveAndRecord path w)"

definition saveDocumentCopy :: "env \<Rightarrow> window \<Rightarrow> bool \<times> window" where
  "saveDocumentCopy E w =
     (let path = getSaveFileName E ''Save Copy As'';
          w = emit (FileDialog ''Save Copy As'') w
      in if path = [] then (False, w) else saveDocumentTo path w)"

definition savePrompt :: "QString \<Rightarrow> QString" where
  "savePrompt title = title @ '' has been modified.  Would you like to save your changes first?''"

definition promptForSave :: "env \<Rightarrow> window \<Rightarrow> bool \<times> window" where
  "promptForSave E w =
     (if isDocumentModified w
      then (let response = question E (savePrompt (m_documentTitle w));
                w = emit (MsgQuestion (savePrompt (m_documentTitle w))) w
            in if response = Cancel then (False, w)
               else if response = Yes then saveDocument E w
               else (True, w))
      else (True, w))"

text \<open>\<^verbatim>\<open>newDocument\<close> after the prompt: the reset to a clean, empty document.\<close>

definition resetDocument :: "env \<Rightarrow> window \<Rightarrow> window" where
  "resetDocument E w =
     (let w = editor_clear w;
          w = clearUndoRedoStacks w;
          w = setSyntax nullSyntax w;
          w = setEncoding E ''UTF-8'' w;
          w = (if win32 E then setLineEndingMode CRLF w else setLineEndingMode LFOnly w);
          w = w\<lparr>m_openFilename := []\<rparr>;
          w = w\<lparr>m_documentTitle := ''Untitled''\<rparr>;
          w = undoStack_clear w;
          w = undoStack_setClean w;
          w = w\<lparr>m_reloadAction := False\<rparr>
      in updateTitle w)"

definition newDocument :: "env \<Rightarrow> window \<Rightarrow> window" where
  "newDocument E w =
     (let (proceed, w) = promptForSave E w
      in if \<not> proceed then w else resetDocument E w)"

text \<open>\<^verbatim>\<open>closeEvent\<close>: whether the event is accepted, and the state.\<close>

definition closeEvent :: "env \<Rightarrow> window \<Rightarrow> bool \<times> window" where
  "closeEvent E w =
     (let (proceed, w) = promptForSave E w
      in if \<not> proceed then (False, w) else (True, emit SettingsSetWindowSize w))"

subsection \<open>Loading\<close>

text \<open>
  The decoding loop of \<^verbatim>\<open>loadDocumentFrom\<close>: \<open>rest\<close> is the file from the read position
  on, \<open>pending\<close> the state of the decoder. It reads blocks of \<open>DECODE_BLOCK_SIZE\<close> bytes
  until a read returns nothing.
\<close>

function decodeBlocks ::
  "QTextCodec \<Rightarrow> QByteArray \<Rightarrow> QByteArray \<Rightarrow> QString list \<Rightarrow> QString list" where
  "decodeBlocks codec pending rest pieces =
     (if length (take DECODE_BLOCK_SIZE rest) = 0 then pieces
      else decodeBlocks codec
             (snd (toUnicode codec pending (take DECODE_BLOCK_SIZE rest)))
             (drop DECODE_BLOCK_SIZE rest)
             (pieces @ [fst (toUnicode codec pending (take DECODE_BLOCK_SIZE rest))]))"
  by pat_completeness auto
termination
  by (relation "measure (\<lambda>(codec, pending, rest, pieces). length rest)")
     (auto simp: DECODE_BLOCK_SIZE_def)

declare decodeBlocks.simps [simp del]

definition largeFileWarning :: QString where
  "largeFileWarning = ''Warning: Are you sure you want to open this large file?''"

text \<open>The large-file gate: whether the load goes on.\<close>

definition confirmLargeFile :: "env \<Rightarrow> nat \<Rightarrow> window \<Rightarrow> bool \<times> window" where
  "confirmLargeFile E fileSize w =
     (if LARGE_FILE_SIZE < fileSize
      then (let response = question E largeFileWarning;
                w = emit (MsgQuestion largeFileWarning) w
            in if response = No then (False, w) else (True, w))
      else (True, w))"

text \<open>The codec of a manually specified encoding: null when none is given or it is not
  known.\<close>

definition manualCodec :: "env \<Rightarrow> QString \<Rightarrow> window \<Rightarrow> QTextCodec option \<times> window" where
  "manualCodec E textEncoding w =
     (if textEncoding \<noteq> []
      then (case codecForName E textEncoding of
              (codec, ok) \<Rightarrow>
                if \<not> ok
                then (None, emit (QDebug (''Invalid manually-specified encoding: '' @ textEncoding)) w)
                else (codec, w))
      else (None, w))"

text \<open>The syntax of the loaded file: the definition libmagic finds, else the one of the
  file name.\<close>

definition resolveSyntax :: "env \<Rightarrow> QString \<Rightarrow> window \<Rightarrow> window" where
  "resolveSyntax E filename w =
     (let w = emit (DefinitionForFileMagic filename) w;
          defn = definitionForFileMagic E filename;
          (defn, w) =
            (if \<not> isValid defn
             then (definitionForFileName E filename, emit (DefinitionForFileName filename) w)
             else (defn, w))
      in if isValid defn then setSyntax defn w else w)"

text \<open>\<^verbatim>\<open>loadDocumentFrom\<close> from the detection on, for a file that is open and accepted.\<close>

definition loadContent :: "env \<Rightarrow> QString \<Rightarrow> QString \<Rightarrow> QByteArray \<Rightarrow> window \<Rightarrow> window" where
  "loadContent E filename textEncoding content w =
     (let det = detect E (take DETECTION_SIZE content) filename;
          w = setLineEndingMode (lineEndings det) w;
          (codec, w) = manualCodec E textEncoding w;
          codec = (case codec of None \<Rightarrow> textCodec det | Some c \<Rightarrow> c);
          w = setEncoding E (codec_name codec) w;
          pieces = decodeBlocks codec [] (drop (bomOffset det) content) [];
          w = editor_clear w;
          w = setSyntax nullSyntax w;
          w = editor_setPlainText (concat pieces) w;
          w = clearUndoRedoStacks w;
          w = resolveSyntax E filename w;
          w = w\<lparr>m_openFilename := filename\<rparr>;
          w = w\<lparr>m_documentTitle := fileName (m_openFilename w)\<rparr>;
          w = undoStack_clear w;
          w = undoStack_setClean w;
          w = w\<lparr>m_reloadAction := True\<rparr>
      in updateTitle w)"

text \<open>
  The same load cut at the call \<^verbatim>\<open>m_editor->setPlainText(pieces.join(QString::null))\<close>.
  \<open>beforeSetPlainText\<close> is \<^verbatim>\<open>loadDocumentFrom\<close> from the detection up to and including
  \<^verbatim>\<open>setSyntax(SyntaxTextEdit::nullSyntax())\<close>: it gives the joined pieces and the window
  in which \<^verbatim>\<open>setPlainText\<close> is called. \<open>afterSetPlainText\<close> is the rest, from
  \<^verbatim>\<open>clearUndoRedoStacks()\<close> on.
\<close>

definition beforeSetPlainText ::
  "env \<Rightarrow> QString \<Rightarrow> QString \<Rightarrow> QByteArray \<Rightarrow> window \<Rightarrow> QString \<times> window" where
  "beforeSetPlainText E filename textEncoding content w =
     (let det = detect E (take DETECTION_SIZE content) filename;
          w = setLineEndingMode (lineEndings det) w;
          (codec, w) = manualCodec E textEncoding w;
          codec = (case codec of None \<Rightarrow> textCodec det | Some c \<Rightarrow> c);
          w = setEncoding E (codec_name codec) w;
          pieces = decodeBlocks codec [] (drop (bomOffset det) content) [];
          w = editor_clear w;
          w = setSyntax nullSyntax w
      in (concat pieces, w))"

definition afterSetPlainText :: "env \<Rightarrow> QString \<Rightarrow> window \<Rightarrow> window" where
  "afterSetPlainText E filename w =
     (let w = clearUndoRedoStacks w;
          w = resolveSyntax E filename w;
          w = w\<lparr>m_openFilename := filename\<rparr>;
          w = w\<lparr>m_documentTitle := fileName (m_openFilename w)\<rparr>;
          w = undoStack_clear w;
          w = undoStack_setClean w;
          w = w\<lparr>m_reloadAction := True\<rparr>
      in updateTitle w)"

definition loadDocumentFrom :: "env \<Rightarrow> QString \<Rightarrow> QString \<Rightarrow> window \<Rightarrow> bool \<times> window" where
  "loadDocumentFrom E filename textEncoding w =
     (case files E filename of
        None \<Rightarrow>
          (False, emit (MsgCritical (''Cannot open file '' @ filename @ '' for reading'')) w)
      | Some content \<Rightarrow>
          (let (proceed, w) = confirmLargeFile E (length content) w
           in if \<not> proceed then (False, w)
              else (True, loadContent E filename textEncoding content w)))"

definition discardPrompt :: "QString \<Rightarrow> QString" where
  "discardPrompt title =
     title @ '' has been modified.  Are you sure you want to discard your changes?''"

definition reloadDocument :: "env \<Rightarrow> window \<Rightarrow> bool \<times> window" where
  "reloadDocument E w =
     (if isDocumentModified w
      then (let response = question E (discardPrompt (m_documentTitle w));
                w = emit (MsgQuestion (discardPrompt (m_documentTitle w))) w
            in if response = No then (False, w)
               else loadDocumentFrom E (m_openFilename w) [] w)
      else loadDocumentFrom E (m_openFilename w) [] w)"

subsection \<open>Reading the trace\<close>

text \<open>The events an operation appended to the trace.\<close>

definition newEvents :: "window \<Rightarrow> window \<Rightarrow> event list" where
  "newEvents w w' = drop (length (trace w)) (trace w')"

fun isDialog :: "event \<Rightarrow> bool" where
  "isDialog (MsgCritical _) = True"
| "isDialog (MsgQuestion _) = True"
| "isDialog (FileDialog _) = True"
| "isDialog _ = False"

fun isSave :: "event \<Rightarrow> bool" where
  "isSave (CallSaveDocumentTo _) = True"
| "isSave _ = False"

fun isPush :: "event \<Rightarrow> bool" where
  "isPush (UndoStackPush _) = True"
| "isPush _ = False"

fun isSetEncoding :: "event \<Rightarrow> bool" where
  "isSetEncoding (CallSetEncoding _) = True"
| "isSetEncoding _ = False"

fun isSetLineEndingMode :: "event \<Rightarrow> bool" where
  "isSetLineEndingMode (CallSetLineEndingMode _) = True"
| "isSetLineEndingMode _ = False"

fun isSetPlainText :: "event \<Rightarrow> bool" where
  "isSetPlainText (EditorSetPlainText _) = True"
| "isSetPlainText _ = False"

fun isEditorClear :: "event \<Rightarrow> bool" where
  "isEditorClear EditorClear = True"
| "isEditorClear _ = False"

fun isSetSyntax :: "event \<Rightarrow> bool" where
  "isSetSyntax (CallSetSyntax _) = True"
| "isSetSyntax _ = False"

text \<open>\<open>occursBefore P Q es\<close>: some event with \<open>P\<close> is followed, later in \<open>es\<close>, by one
  with \<open>Q\<close>.\<close>

fun occursBefore :: "(event \<Rightarrow> bool) \<Rightarrow> (event \<Rightarrow> bool) \<Rightarrow> event list \<Rightarrow> bool" where
  "occursBefore P Q [] = False"
| "occursBefore P Q (e # es) = ((P e \<and> list_ex Q es) \<or> occursBefore P Q es)"

subsection \<open>Sample inputs\<close>

text \<open>A single-byte codec: every byte is a character, nothing is held back.\<close>

definition sampleCodec :: "QString \<Rightarrow> QTextCodec" where
  "sampleCodec name = \<lparr>codec_name = name, toUnicode = (\<lambda>pending buffer. (buffer, []))\<rparr>"

definition shellSyntax :: Definition where
  "shellSyntax = \<lparr>isValid = True, translatedName = ''Bash''\<rparr>"

definition markdownSyntax :: Definition where
  "markdownSyntax = \<lparr>isValid = True, translatedName = ''Markdown''\<rparr>"

definition pythonSyntax :: Definition where
  "pythonSyntax = \<lparr>isValid = True, translatedName = ''Python''\<rparr>"

definition troffSyntax :: Definition where
  "troffSyntax = \<lparr>isValid = True, translatedName = ''Troff Mandoc''\<rparr>"

text \<open>Four files: a script named \<^verbatim>\<open>report.txt\<close>, a Markdown file, the script
  \<^verbatim>\<open>idle3.6\<close> of the comment in \<^verbatim>\<open>loadDocumentFrom\<close>, and a file nothing recognises.\<close>

definition sampleFiles :: "QString \<Rightarrow> QByteArray option" where
  "sampleFiles path =
     (if path = ''/tmp/report.txt'' then Some ''#!/bin/sh''
      else if path = ''/tmp/notes.md'' then Some ''# Notes''
      else if path = ''/tmp/idle3.6'' then Some ''#!/usr/bin/python3''
      else if path = ''/tmp/README'' then Some ''hello''
      else None)"

definition sampleFileMagic :: "QString \<Rightarrow> Definition" where
  "sampleFileMagic path =
     (if path = ''/tmp/report.txt'' then shellSyntax
      else if path = ''/tmp/idle3.6'' then pythonSyntax
      else nullSyntax)"

definition sampleFileName :: "QString \<Rightarrow> Definition" where
  "sampleFileName path =
     (if path = ''/tmp/notes.md'' then markdownSyntax
      else if path = ''/tmp/idle3.6'' then troffSyntax
      else nullSyntax)"

text \<open>The registry knows two names; for any other it answers with a fallback codec and
  \<^verbatim>\<open>ok = false\<close>.\<close>

definition sampleCodecForName :: "QString \<Rightarrow> QTextCodec option \<times> bool" where
  "sampleCodecForName name =
     (if name = ''UTF-8'' \<or> name = ''ISO-8859-1'' then (Some (sampleCodec name), True)
      else (Some (sampleCodec ''ISO-8859-1''), False))"

text \<open>An environment whose user answers every question with \<open>answer\<close> and chooses
  \<open>savePath\<close> in every save dialog.\<close>

definition sampleEnv :: "StandardButton \<Rightarrow> QString \<Rightarrow> env" where
  "sampleEnv answer savePath =
     \<lparr>files = sampleFiles,
      question = (\<lambda>msg. answer),
      getSaveFileName = (\<lambda>caption. savePath),
      codecForName = sampleCodecForName,
      detect = (\<lambda>prefix filename.
         \<lparr>lineEndings = CRLF, textCodec = sampleCodec ''UTF-8'', bomOffset = 0\<rparr>),
      definitionForFileMagic = sampleFileMagic,
      definitionForFileName = sampleFileName,
      win32 = False\<rparr>"

text \<open>The same environment with one file of \<open>n\<close> bytes at every path.\<close>

definition bigFile :: "nat \<Rightarrow> QByteArray" where
  "bigFile n = replicate n (CHR ''a'')"

definition bigFileEnv :: "nat \<Rightarrow> StandardButton \<Rightarrow> env" where
  "bigFileEnv n answer = (sampleEnv answer [])\<lparr>files := (\<lambda>path. Some (bigFile n))\<rparr>"

text \<open>A new, never saved document.\<close>

definition untitledWindow :: window where
  "untitledWindow =
     \<lparr>m_editor_plainText = [],
      m_editor_syntax = nullSyntax,
      m_editor_undoStack = [],
      m_editor_redoStack = [],
      m_textEncoding = ''UTF-8'',
      m_lineEndingMode = LFOnly,
      m_openFilename = [],
      m_documentTitle = ''Untitled'',
      m_undoStack = \<lparr>command_list = [], index = 0, clean_index = 0\<rparr>,
      m_syntaxButton = ''Plain Text'',
      m_encodingButton = ''UTF-8'',
      m_crlfLabel = ''LF'',
      m_syntaxActions = \<lparr>actions = [nullSyntax, shellSyntax, markdownSyntax], checkedAction = Some 0\<rparr>,
      m_encodingActions = \<lparr>actions = [''ISO-8859-1'', ''UTF-8''], checkedAction = Some 1\<rparr>,
      m_lineEndingActions = \<lparr>actions = [CROnly, LFOnly, CRLF], checkedAction = Some 1\<rparr>,
      m_reloadAction = False,
      windowTitle = ''Untitled '' @ ndash @ '' qtextpad'',
      trace = []\<rparr>"

text \<open>The document \<^verbatim>\<open>/tmp/notes.md\<close> after an edit of the text and a change of the
  encoding: two commands in the history, the clean state at its start.\<close>

definition editedWindow :: window where
  "editedWindow =
     untitledWindow
       \<lparr>m_editor_plainText := ''# Notes!'',
        m_editor_syntax := markdownSyntax,
        m_editor_undoStack := [''# Notes''],
        m_textEncoding := ''ISO-8859-1'',
        m_openFilename := ''/tmp/notes.md'',
        m_documentTitle := ''notes.md'',
        m_undoStack :=
          \<lparr>command_list = [TextEditorUndoCommand, ChangeEncodingCommand ''UTF-8'' ''ISO-8859-1''],
           index = 2, clean_index = 0\<rparr>,
        m_syntaxButton := ''Markdown'',
        m_encodingButton := ''ISO-8859-1'',
        m_syntaxActions := \<lparr>actions = [nullSyntax, shellSyntax, markdownSyntax], checkedAction = Some 2\<rparr>,
        m_encodingActions := \<lparr>actions = [''ISO-8859-1'', ''UTF-8''], checkedAction = Some 0\<rparr>,
        m_reloadAction := True,
        windowTitle := ''* notes.md '' @ ndash @ '' qtextpad''\<rparr>"

section \<open>Each operation and the members it leaves alone\<close>

named_theorems frame \<open>an operation leaves a member as it was\<close>

lemma emit_frame [frame]:
  "m_editor_plainText (emit e w) = m_editor_plainText w"
  "m_editor_syntax (emit e w) = m_editor_syntax w"
  "m_editor_undoStack (emit e w) = m_editor_undoStack w"
  "m_editor_redoStack (emit e w) = m_editor_redoStack w"
  "m_textEncoding (emit e w) = m_textEncoding w"
  "m_lineEndingMode (emit e w) = m_lineEndingMode w"
  "m_openFilename (emit e w) = m_openFilename w"
  "m_documentTitle (emit e w) = m_documentTitle w"
  "m_undoStack (emit e w) = m_undoStack w"
  "m_syntaxButton (emit e w) = m_syntaxButton w"
  "m_encodingButton (emit e w) = m_encodingButton w"
  "m_crlfLabel (emit e w) = m_crlfLabel w"
  "m_reloadAction (emit e w) = m_reloadAction w"
  by (simp_all add: emit_def)

lemma updateTitle_frame [frame]:
  "m_editor_plainText (updateTitle w) = m_editor_plainText w"
  "m_editor_syntax (updateTitle w) = m_editor_syntax w"
  "m_editor_undoStack (updateTitle w) = m_editor_undoStack w"
  "m_editor_redoStack (updateTitle w) = m_editor_redoStack w"
  "m_textEncoding (updateTitle w) = m_textEncoding w"
  "m_lineEndingMode (updateTitle w) = m_lineEndingMode w"
  "m_openFilename (updateTitle w) = m_openFilename w"
  "m_documentTitle (updateTitle w) = m_documentTitle w"
  "m_undoStack (updateTitle w) = m_undoStack w"
  "m_syntaxButton (updateTitle w) = m_syntaxButton w"
  "m_encodingButton (updateTitle w) = m_encodingButton w"
  "m_crlfLabel (updateTitle w) = m_crlfLabel w"
  "m_reloadAction (updateTitle w) = m_reloadAction w"
  "trace (updateTitle w) = trace w"
  by (simp_all add: updateTitle_def Let_def)

lemma onUndoStack_frame [frame]:
  "m_editor_plainText (onUndoStack f w) = m_editor_plainText w"
  "m_editor_syntax (onUndoStack f w) = m_editor_syntax w"
  "m_editor_undoStack (onUndoStack f w) = m_editor_undoStack w"
  "m_editor_redoStack (onUndoStack f w) = m_editor_redoStack w"
  "m_textEncoding (onUndoStack f w) = m_textEncoding w"
  "m_lineEndingMode (onUndoStack f w) = m_lineEndingMode w"
  "m_openFilename (onUndoStack f w) = m_openFilename w"
  "m_documentTitle (onUndoStack f w) = m_documentTitle w"
  "m_syntaxButton (onUndoStack f w) = m_syntaxButton w"
  "m_encodingButton (onUndoStack f w) = m_encodingButton w"
  "m_crlfLabel (onUndoStack f w) = m_crlfLabel w"
  "m_reloadAction (onUndoStack f w) = m_reloadAction w"
  "trace (onUndoStack f w) = trace w"
  by (simp_all add: onUndoStack_def updateTitle_def Let_def)

lemma setSyntax_frame [frame]:
  "m_editor_plainText (setSyntax syn w) = m_editor_plainText w"
  "m_editor_undoStack (setSyntax syn w) = m_editor_undoStack w"
  "m_editor_redoStack (setSyntax syn w) = m_editor_redoStack w"
  "m_textEncoding (setSyntax syn w) = m_textEncoding w"
  "m_lineEndingMode (setSyntax syn w) = m_lineEndingMode w"
  "m_openFilename (setSyntax syn w) = m_openFilename w"
  "m_documentTitle (setSyntax syn w) = m_documentTitle w"
  "m_undoStack (setSyntax syn w) = m_undoStack w"
  "m_encodingButton (setSyntax syn w) = m_encodingButton w"
  "m_crlfLabel (setSyntax syn w) = m_crlfLabel w"
  "m_reloadAction (setSyntax syn w) = m_reloadAction w"
  by (simp_all add: setSyntax_def emit_def Let_def)

lemma setEncoding_frame [frame]:
  "m_editor_plainText (setEncoding E codecName w) = m_editor_plainText w"
  "m_editor_syntax (setEncoding E codecName w) = m_editor_syntax w"
  "m_editor_undoStack (setEncoding E codecName w) = m_editor_undoStack w"
  "m_editor_redoStack (setEncoding E codecName w) = m_editor_redoStack w"
  "m_lineEndingMode (setEncoding E codecName w) = m_lineEndingMode w"
  "m_openFilename (setEncoding E codecName w) = m_openFilename w"
  "m_documentTitle (setEncoding E codecName w) = m_documentTitle w"
  "m_undoStack (setEncoding E codecName w) = m_undoStack w"
  "m_syntaxButton (setEncoding E codecName w) = m_syntaxButton w"
  "m_crlfLabel (setEncoding E codecName w) = m_crlfLabel w"
  "m_reloadAction (setEncoding E codecName w) = m_reloadAction w"
  by (simp_all add: setEncoding_def emit_def Let_def)

lemma setLineEndingMode_frame [frame]:
  "m_editor_plainText (setLineEndingMode mode w) = m_editor_plainText w"
  "m_editor_syntax (setLineEndingMode mode w) = m_editor_syntax w"
  "m_editor_undoStack (setLineEndingMode mode w) = m_editor_undoStack w"
  "m_editor_redoStack (setLineEndingMode mode w) = m_editor_redoStack w"
  "m_textEncoding (setLineEndingMode mode w) = m_textEncoding w"
  "m_openFilename (setLineEndingMode mode w) = m_openFilename w"
  "m_documentTitle (setLineEndingMode mode w) = m_documentTitle w"
  "m_undoStack (setLineEndingMode mode w) = m_undoStack w"
  "m_syntaxButton (setLineEndingMode mode w) = m_syntaxButton w"
  "m_encodingButton (setLineEndingMode mode w) = m_encodingButton w"
  "m_reloadAction (setLineEndingMode mode w) = m_reloadAction w"
  by (simp_all add: setLineEndingMode_def emit_def Let_def split: LineEndingMode.splits)

lemma editor_clear_frame [frame]:
  "m_editor_syntax (editor_clear w) = m_editor_syntax w"
  "m_textEncoding (editor_clear w) = m_textEncoding w"
  "m_lineEndingMode (editor_clear w) = m_lineEndingMode w"
  "m_openFilename (editor_clear w) = m_openFilename w"
  "m_documentTitle (editor_clear w) = m_documentTitle w"
  "m_undoStack (editor_clear w) = m_undoStack w"
  "m_syntaxButton (editor_clear w) = m_syntaxButton w"
  "m_encodingButton (editor_clear w) = m_encodingButton w"
  "m_crlfLabel (editor_clear w) = m_crlfLabel w"
  "m_reloadAction (editor_clear w) = m_reloadAction w"
  by (simp_all add: editor_clear_def emit_def)

lemma editor_setPlainText_frame [frame]:
  "m_editor_syntax (editor_setPlainText t w) = m_editor_syntax w"
  "m_textEncoding (editor_setPlainText t w) = m_textEncoding w"
  "m_lineEndingMode (editor_setPlainText t w) = m_lineEndingMode w"
  "m_openFilename (editor_setPlainText t w) = m_openFilename w"
  "m_documentTitle (editor_setPlainText t w) = m_documentTitle w"
  "m_undoStack (editor_setPlainText t w) = m_undoStack w"
  "m_syntaxButton (editor_setPlainText t w) = m_syntaxButton w"
  "m_encodingButton (editor_setPlainText t w) = m_encodingButton w"
  "m_crlfLabel (editor_setPlainText t w) = m_crlfLabel w"
  "m_reloadAction (editor_setPlainText t w) = m_reloadAction w"
  by (simp_all add: editor_setPlainText_def emit_def)

lemma clearUndoRedoStacks_frame [frame]:
  "m_editor_plainText (clearUndoRedoStacks w) = m_editor_plainText w"
  "m_editor_syntax (clearUndoRedoStacks w) = m_editor_syntax w"
  "m_textEncoding (clearUndoRedoStacks w) = m_textEncoding w"
  "m_lineEndingMode (clearUndoRedoStacks w) = m_lineEndingMode w"
  "m_openFilename (clearUndoRedoStacks w) = m_openFilename w"
  "m_documentTitle (clearUndoRedoStacks w) = m_documentTitle w"
  "m_undoStack (clearUndoRedoStacks w) = m_undoStack w"
  "m_syntaxButton (clearUndoRedoStacks w) = m_syntaxButton w"
  "m_encodingButton (clearUndoRedoStacks w) = m_encodingButton w"
  "m_crlfLabel (clearUndoRedoStacks w) = m_crlfLabel w"
  "m_reloadAction (clearUndoRedoStacks w) = m_reloadAction w"
  by (simp_all add: clearUndoRedoStacks_def emit_def)

lemma undoStack_clear_frame [frame]:
  "m_editor_plainText (undoStack_clear w) = m_editor_plainText w"
  "m_editor_syntax (undoStack_clear w) = m_editor_syntax w"
  "m_editor_undoStack (undoStack_clear w) = m_editor_undoStack w"
  "m_editor_redoStack (undoStack_clear w) = m_editor_redoStack w"
  "m_textEncoding (undoStack_clear w) = m_textEncoding w"
  "m_lineEndingMode (undoStack_clear w) = m_lineEndingMode w"
  "m_openFilename (undoStack_clear w) = m_openFilename w"
  "m_documentTitle (undoStack_clear w) = m_documentTitle w"
  "m_syntaxButton (undoStack_clear w) = m_syntaxButton w"
  "m_encodingButton (undoStack_clear w) = m_encodingButton w"
  "m_crlfLabel (undoStack_clear w) = m_crlfLabel w"
  "m_reloadAction (undoStack_clear w) = m_reloadAction w"
  by (simp_all add: undoStack_clear_def frame)

lemma undoStack_setClean_frame [frame]:
  "m_editor_plainText (undoStack_setClean w) = m_editor_plainText w"
  "m_editor_syntax (undoStack_setClean w) = m_editor_syntax w"
  "m_editor_undoStack (undoStack_setClean w) = m_editor_undoStack w"
  "m_editor_redoStack (undoStack_setClean w) = m_editor_redoStack w"
  "m_textEncoding (undoStack_setClean w) = m_textEncoding w"
  "m_lineEndingMode (undoStack_setClean w) = m_lineEndingMode w"
  "m_openFilename (undoStack_setClean w) = m_openFilename w"
  "m_documentTitle (undoStack_setClean w) = m_documentTitle w"
  "m_syntaxButton (undoStack_setClean w) = m_syntaxButton w"
  "m_encodingButton (undoStack_setClean w) = m_encodingButton w"
  "m_crlfLabel (undoStack_setClean w) = m_crlfLabel w"
  "m_reloadAction (undoStack_setClean w) = m_reloadAction w"
  by (simp_all add: undoStack_setClean_def frame)

lemma resolveSyntax_frame [frame]:
  "m_editor_plainText (resolveSyntax E filename w) = m_editor_plainText w"
  "m_editor_undoStack (resolveSyntax E filename w) = m_editor_undoStack w"
  "m_editor_redoStack (resolveSyntax E filename w) = m_editor_redoStack w"
  "m_textEncoding (resolveSyntax E filename w) = m_textEncoding w"
  "m_lineEndingMode (resolveSyntax E filename w) = m_lineEndingMode w"
  "m_openFilename (resolveSyntax E filename w) = m_openFilename w"
  "m_documentTitle (resolveSyntax E filename w) = m_documentTitle w"
  "m_undoStack (resolveSyntax E filename w) = m_undoStack w"
  "m_encodingButton (resolveSyntax E filename w) = m_encodingButton w"
  "m_crlfLabel (resolveSyntax E filename w) = m_crlfLabel w"
  "m_reloadAction (resolveSyntax E filename w) = m_reloadAction w"
  by (simp_all add: resolveSyntax_def Let_def frame)

lemma manualCodec_frame [frame]:
  "m_editor_plainText (snd (manualCodec E textEncoding w)) = m_editor_plainText w"
  "m_editor_syntax (snd (manualCodec E textEncoding w)) = m_editor_syntax w"
  "m_editor_undoStack (snd (manualCodec E textEncoding w)) = m_editor_undoStack w"
  "m_editor_redoStack (snd (manualCodec E textEncoding w)) = m_editor_redoStack w"
  "m_textEncoding (snd (manualCodec E textEncoding w)) = m_textEncoding w"
  "m_lineEndingMode (snd (manualCodec E textEncoding w)) = m_lineEndingMode w"
  "m_openFilename (snd (manualCodec E textEncoding w)) = m_openFilename w"
  "m_documentTitle (snd (manualCodec E textEncoding w)) = m_documentTitle w"
  "m_undoStack (snd (manualCodec E textEncoding w)) = m_undoStack w"
  "m_syntaxButton (snd (manualCodec E textEncoding w)) = m_syntaxButton w"
  "m_encodingButton (snd (manualCodec E textEncoding w)) = m_encodingButton w"
  "m_crlfLabel (snd (manualCodec E textEncoding w)) = m_crlfLabel w"
  "m_reloadAction (snd (manualCodec E textEncoding w)) = m_reloadAction w"
  by (simp_all add: manualCodec_def case_prod_beta frame)

lemma confirmLargeFile_frame [frame]:
  "m_editor_plainText (snd (confirmLargeFile E n w)) = m_editor_plainText w"
  "m_editor_syntax (snd (confirmLargeFile E n w)) = m_editor_syntax w"
  "m_editor_undoStack (snd (confirmLargeFile E n w)) = m_editor_undoStack w"
  "m_editor_redoStack (snd (confirmLargeFile E n w)) = m_editor_redoStack w"
  "m_textEncoding (snd (confirmLargeFile E n w)) = m_textEncoding w"
  "m_lineEndingMode (snd (confirmLargeFile E n w)) = m_lineEndingMode w"
  "m_openFilename (snd (confirmLargeFile E n w)) = m_openFilename w"
  "m_documentTitle (snd (confirmLargeFile E n w)) = m_documentTitle w"
  "m_undoStack (snd (confirmLargeFile E n w)) = m_undoStack w"
  "m_syntaxButton (snd (confirmLargeFile E n w)) = m_syntaxButton w"
  "m_encodingButton (snd (confirmLargeFile E n w)) = m_encodingButton w"
  "m_crlfLabel (snd (confirmLargeFile E n w)) = m_crlfLabel w"
  "m_reloadAction (snd (confirmLargeFile E n w)) = m_reloadAction w"
  by (simp_all add: confirmLargeFile_def Let_def frame)

named_theorems traces \<open>what an operation appends to the trace\<close>

lemma trace_emit [traces]: "trace (emit e w) = trace w @ [e]"
  by (simp add: emit_def)

lemma trace_setSyntax [traces]: "trace (setSyntax syn w) = trace w @ [CallSetSyntax syn]"
  by (simp add: setSyntax_def emit_def Let_def)

lemma trace_setEncoding [traces]:
  "trace (setEncoding E codecName w) =
     trace w @ CallSetEncoding codecName #
       (if snd (codecForName E codecName) then [] else [QWarning ''Invalid codec selected''])"
  by (simp add: setEncoding_def emit_def Let_def)

lemma trace_setLineEndingMode [traces]:
  "trace (setLineEndingMode mode w) = trace w @ [CallSetLineEndingMode mode]"
  by (simp add: setLineEndingMode_def emit_def Let_def split: LineEndingMode.splits)

lemma trace_editor [traces]:
  "trace (editor_clear w) = trace w @ [EditorClear]"
  "trace (editor_setPlainText t w) = trace w @ [EditorSetPlainText t]"
  "trace (clearUndoRedoStacks w) = trace w @ [ClearUndoRedoStacks]"
  by (simp_all add: editor_clear_def editor_setPlainText_def clearUndoRedoStacks_def emit_def)

lemma trace_undoStack [traces]:
  "trace (undoStack_clear w) = trace w @ [UndoStackClear]"
  "trace (undoStack_setClean w) = trace w @ [UndoStackSetClean]"
  by (simp_all add: undoStack_clear_def undoStack_setClean_def frame trace_emit)

lemma trace_resolveSyntax [traces]:
  "trace (resolveSyntax E filename w) =
     trace w @ DefinitionForFileMagic filename #
       (if isValid (definitionForFileMagic E filename)
        then [CallSetSyntax (definitionForFileMagic E filename)]
        else DefinitionForFileName filename #
          (if isValid (definitionForFileName E filename)
           then [CallSetSyntax (definitionForFileName E filename)] else []))"
  by (simp add: resolveSyntax_def Let_def traces frame)

lemma trace_manualCodec [traces]:
  "trace (snd (manualCodec E textEncoding w)) =
     trace w @
       (if textEncoding \<noteq> [] \<and> \<not> snd (codecForName E textEncoding)
        then [QDebug (''Invalid manually-specified encoding: '' @ textEncoding)] else [])"
  by (simp add: manualCodec_def case_prod_beta traces)

lemma trace_confirmLargeFile [traces]:
  "trace (snd (confirmLargeFile E n w)) =
     trace w @ (if LARGE_FILE_SIZE < n then [MsgQuestion largeFileWarning] else [])"
  by (simp add: confirmLargeFile_def Let_def traces)

lemma fst_manualCodec:
  "fst (manualCodec E textEncoding w) =
     (if textEncoding \<noteq> [] \<and> snd (codecForName E textEncoding)
      then fst (codecForName E textEncoding) else None)"
  by (simp add: manualCodec_def case_prod_beta)

lemma m_undoStack_onUndoStack: "m_undoStack (onUndoStack f w) = f (m_undoStack w)"
  by (simp add: onUndoStack_def updateTitle_def Let_def)

lemma m_undoStack_undoStack:
  "m_undoStack (undoStack_clear w) = stack_clear (m_undoStack w)"
  "m_undoStack (undoStack_setClean w) = stack_setClean (m_undoStack w)"
  by (simp_all add: undoStack_clear_def undoStack_setClean_def m_undoStack_onUndoStack frame)

lemma resolveSyntax_syntax:
  "m_editor_syntax (resolveSyntax E filename w) =
     (if isValid (definitionForFileMagic E filename) then definitionForFileMagic E filename
      else if isValid (definitionForFileName E filename) then definitionForFileName E filename
      else m_editor_syntax w)"
  by (simp add: resolveSyntax_def Let_def setSyntax_def emit_def)

lemma resolveSyntax_button:
  "m_syntaxButton (resolveSyntax E filename w) =
     (if isValid (definitionForFileMagic E filename)
      then translatedName (definitionForFileMagic E filename)
      else if isValid (definitionForFileName E filename)
      then translatedName (definitionForFileName E filename)
      else m_syntaxButton w)"
  by (simp add: resolveSyntax_def Let_def setSyntax_def emit_def)

subsection \<open>The state after a load\<close>

text \<open>The codec the load decodes with, as \<^verbatim>\<open>loadDocumentFrom\<close> computes it.\<close>

lemma loadContent_undoStack:
  "m_undoStack (loadContent E filename textEncoding content w) =
     \<lparr>command_list = [], index = 0, clean_index = 0\<rparr>"
  by (simp add: loadContent_def Let_def case_prod_beta frame m_undoStack_undoStack
        stack_clear_def stack_setClean_def)

lemma loadContent_trace:
  "trace (loadContent E filename textEncoding content w) =
     trace (snd (manualCodec E textEncoding
              (setLineEndingMode (lineEndings (detect E (take DETECTION_SIZE content) filename)) w))) @
     CallSetEncoding (m_textEncoding (loadContent E filename textEncoding content w)) #
     (if snd (codecForName E (m_textEncoding (loadContent E filename textEncoding content w)))
      then [] else [QWarning ''Invalid codec selected'']) @
     [EditorClear, CallSetSyntax nullSyntax,
      EditorSetPlainText (m_editor_plainText (loadContent E filename textEncoding content w)),
      ClearUndoRedoStacks] @
     drop (length (trace w)) (trace (resolveSyntax E filename w)) @
     [UndoStackClear, UndoStackSetClean]"
  by (simp add: loadContent_def Let_def case_prod_beta frame traces
        setEncoding_def editor_setPlainText_def emit_def)

lemma loadContent_encoding:
  "m_textEncoding (loadContent E filename textEncoding content w) =
     codec_name (case fst (manualCodec E textEncoding w) of
                   None \<Rightarrow> textCodec (detect E (take DETECTION_SIZE content) filename)
                 | Some c \<Rightarrow> c)"
  by (simp add: loadContent_def Let_def case_prod_beta frame fst_manualCodec
        setEncoding_def emit_def)

lemma loadContent_plainText:
  "m_editor_plainText (loadContent E filename textEncoding content w) =
     concat (decodeBlocks
       (case fst (manualCodec E textEncoding w) of
          None \<Rightarrow> textCodec (detect E (take DETECTION_SIZE content) filename)
        | Some c \<Rightarrow> c)
       [] (drop (bomOffset (detect E (take DETECTION_SIZE content) filename)) content) [])"
  by (simp add: loadContent_def Let_def case_prod_beta frame fst_manualCodec
        editor_setPlainText_def emit_def)

lemma loadContent_syntax:
  "m_editor_syntax (loadContent E filename textEncoding content w) =
     (if isValid (definitionForFileMagic E filename) then definitionForFileMagic E filename
      else if isValid (definitionForFileName E filename) then definitionForFileName E filename
      else nullSyntax)"
  by (simp add: loadContent_def Let_def case_prod_beta frame resolveSyntax_syntax
        setSyntax_def emit_def)

lemma loadContent_syntaxButton:
  "m_syntaxButton (loadContent E filename textEncoding content w) =
     (if isValid (definitionForFileMagic E filename)
      then translatedName (definitionForFileMagic E filename)
      else if isValid (definitionForFileName E filename)
      then translatedName (definitionForFileName E filename)
      else ''Plain Text'')"
  by (simp add: loadContent_def Let_def case_prod_beta frame resolveSyntax_button
        setSyntax_def emit_def nullSyntax_def)

lemma loadContent_lineEndingMode:
  "m_lineEndingMode (loadContent E filename textEncoding content w) =
     lineEndings (detect E (take DETECTION_SIZE content) filename)"
  by (simp add: loadContent_def Let_def case_prod_beta frame
        setLineEndingMode_def emit_def split: LineEndingMode.splits)

lemma loadContent_editorStacks:
  "m_editor_undoStack (loadContent E filename textEncoding content w) = []"
  "m_editor_redoStack (loadContent E filename textEncoding content w) = []"
  by (simp_all add: loadContent_def Let_def case_prod_beta frame
        clearUndoRedoStacks_def emit_def)

lemma loadDocumentFrom_True:
  assumes "loadDocumentFrom E filename textEncoding w = (True, w')"
  obtains content where "files E filename = Some content"
    and "LARGE_FILE_SIZE < length content \<longrightarrow> question E largeFileWarning \<noteq> No"
    and "w' = loadContent E filename textEncoding content
                (snd (confirmLargeFile E (length content) w))"
  using assms
  by (auto simp: loadDocumentFrom_def confirmLargeFile_def Let_def
        split: option.splits if_splits)

lemma decodeBlocks_one_block:
  assumes "rest \<noteq> []" and "length rest \<le> DECODE_BLOCK_SIZE"
  shows "decodeBlocks codec pending rest pieces = pieces @ [fst (toUnicode codec pending rest)]"
proof -
  have "decodeBlocks codec pending rest pieces =
      decodeBlocks codec (snd (toUnicode codec pending rest)) []
        (pieces @ [fst (toUnicode codec pending rest)])"
    using assms by (subst decodeBlocks.simps) simp
  also have "\<dots> = pieces @ [fst (toUnicode codec pending rest)]"
    by (subst decodeBlocks.simps) simp
  finally show ?thesis .
qed

text \<open>The load, cut at the call of \<^verbatim>\<open>setPlainText\<close>.\<close>

lemma loadContent_cut:
  "loadContent E filename textEncoding content w =
     afterSetPlainText E filename
       (editor_setPlainText (fst (beforeSetPlainText E filename textEncoding content w))
          (snd (beforeSetPlainText E filename textEncoding content w)))"
  by (simp add: loadContent_def beforeSetPlainText_def afterSetPlainText_def Let_def
        case_prod_beta)

lemma beforeSetPlainText_editor:
  "m_editor_syntax (snd (beforeSetPlainText E filename textEncoding content w)) = nullSyntax"
  "m_syntaxButton (snd (beforeSetPlainText E filename textEncoding content w)) = ''Plain Text''"
  "m_editor_plainText (snd (beforeSetPlainText E filename textEncoding content w)) = []"
  by (simp_all add: beforeSetPlainText_def Let_def case_prod_beta frame setSyntax_def
        editor_clear_def emit_def nullSyntax_def)

lemma beforeSetPlainText_pieces:
  "fst (beforeSetPlainText E filename textEncoding content w) =
     m_editor_plainText (loadContent E filename textEncoding content v)"
  by (simp add: beforeSetPlainText_def Let_def case_prod_beta loadContent_plainText
        fst_manualCodec)

section \<open>The claims\<close>

subsection \<open>Loading resets the history\<close>

lemma newEvents_append: "trace w' = trace w @ es \<Longrightarrow> newEvents w w' = es"
  by (simp add: newEvents_def)

lemma loadContent_newEvents:
  "newEvents w (loadContent E filename textEncoding content
                  (snd (confirmLargeFile E (length content) w))) =
     (if LARGE_FILE_SIZE < length content then [MsgQuestion largeFileWarning] else []) @
     CallSetLineEndingMode (lineEndings (detect E (take DETECTION_SIZE content) filename)) #
     (if textEncoding \<noteq> [] \<and> \<not> snd (codecForName E textEncoding)
      then [QDebug (''Invalid manually-specified encoding: '' @ textEncoding)] else []) @
     CallSetEncoding (m_textEncoding (loadContent E filename textEncoding content w)) #
     (if snd (codecForName E (m_textEncoding (loadContent E filename textEncoding content w)))
      then [] else [QWarning ''Invalid codec selected'']) @
     [EditorClear, CallSetSyntax nullSyntax,
      EditorSetPlainText (m_editor_plainText (loadContent E filename textEncoding content w)),
      ClearUndoRedoStacks, DefinitionForFileMagic filename] @
     (if isValid (definitionForFileMagic E filename)
      then [CallSetSyntax (definitionForFileMagic E filename)]
      else DefinitionForFileName filename #
        (if isValid (definitionForFileName E filename)
         then [CallSetSyntax (definitionForFileName E filename)] else [])) @
     [UndoStackClear, UndoStackSetClean]"
  by (rule newEvents_append)
     (simp add: loadContent_trace traces loadContent_encoding loadContent_plainText
        fst_manualCodec)

text \<open>
  Claim C2. Whatever the document was, in particular a modified one with commands in its
  history: after a \<^verbatim>\<open>loadDocumentFrom\<close> that returns \<^verbatim>\<open>true\<close> the command history is
  empty and clean and \<^verbatim>\<open>isDocumentModified()\<close> is false. The editor is first emptied by
  \<^verbatim>\<open>clear()\<close>, then the syntax is set to the null definition, and directly after that
  the one \<^verbatim>\<open>setPlainText\<close> of the load puts in the text the editor ends with: in the
  window in which \<^verbatim>\<open>setPlainText\<close> is called the syntax of the editor is the null
  definition (the button shows \<^verbatim>\<open>Plain Text\<close>) and the text is empty, and it is still the
  null definition when the text is in.
\<close>

theorem load_resets_history:
  assumes "loadDocumentFrom E filename textEncoding w = (True, w')"
  shows "command_list (m_undoStack w') = [] \<and> index (m_undoStack w') = 0
    \<and> isClean (m_undoStack w') \<and> \<not> isDocumentModified w'
    \<and> (\<exists>pre post.
          newEvents w w' =
            pre @ [EditorClear, CallSetSyntax nullSyntax,
                   EditorSetPlainText (m_editor_plainText w')] @ post
          \<and> \<not> list_ex isEditorClear pre \<and> \<not> list_ex isSetSyntax pre
          \<and> \<not> list_ex isSetPlainText pre
          \<and> \<not> list_ex isEditorClear post \<and> \<not> list_ex isSetPlainText post)
    \<and> (\<exists>content v.
          files E filename = Some content
          \<and> v = snd (beforeSetPlainText E filename textEncoding content
                       (snd (confirmLargeFile E (length content) w)))
          \<and> m_editor_syntax v = nullSyntax \<and> m_syntaxButton v = ''Plain Text''
          \<and> m_editor_plainText v = []
          \<and> m_editor_syntax (editor_setPlainText (m_editor_plainText w') v) = nullSyntax
          \<and> m_editor_plainText (editor_setPlainText (m_editor_plainText w') v) =
              m_editor_plainText w'
          \<and> w' = afterSetPlainText E filename (editor_setPlainText (m_editor_plainText w') v))"
proof -
  from assms obtain content where opened: "files E filename = Some content"
    and eq: "w' = loadContent E filename textEncoding content
                (snd (confirmLargeFile E (length content) w))"
    by (rule loadDocumentFrom_True)
  let ?w0 = "snd (confirmLargeFile E (length content) w)"
  let ?v = "snd (beforeSetPlainText E filename textEncoding content ?w0)"
  have stack: "m_undoStack w' = \<lparr>command_list = [], index = 0, clean_index = 0\<rparr>"
    by (simp add: eq loadContent_undoStack)
  have plain: "m_editor_plainText w' = m_editor_plainText (loadContent E filename textEncoding content w)"
    by (simp add: eq loadContent_plainText fst_manualCodec)
  have pieces: "fst (beforeSetPlainText E filename textEncoding content ?w0) = m_editor_plainText w'"
    unfolding eq by (rule beforeSetPlainText_pieces)
  have cut: "w' = afterSetPlainText E filename (editor_setPlainText (m_editor_plainText w') ?v)"
    unfolding pieces [symmetric] unfolding eq by (rule loadContent_cut)
  have in_editor:
    "m_editor_syntax (editor_setPlainText (m_editor_plainText w') ?v) = nullSyntax"
    "m_editor_plainText (editor_setPlainText (m_editor_plainText w') ?v) = m_editor_plainText w'"
    by (simp_all add: frame beforeSetPlainText_editor editor_setPlainText_def emit_def)
  let ?pre = "(if LARGE_FILE_SIZE < length content then [MsgQuestion largeFileWarning] else []) @
     CallSetLineEndingMode (lineEndings (detect E (take DETECTION_SIZE content) filename)) #
     (if textEncoding \<noteq> [] \<and> \<not> snd (codecForName E textEncoding)
      then [QDebug (''Invalid manually-specified encoding: '' @ textEncoding)] else []) @
     CallSetEncoding (m_textEncoding (loadContent E filename textEncoding content w)) #
     (if snd (codecForName E (m_textEncoding (loadContent E filename textEncoding content w)))
      then [] else [QWarning ''Invalid codec selected''])"
  let ?post = "[ClearUndoRedoStacks, DefinitionForFileMagic filename] @
     (if isValid (definitionForFileMagic E filename)
      then [CallSetSyntax (definitionForFileMagic E filename)]
      else DefinitionForFileName filename #
        (if isValid (definitionForFileName E filename)
         then [CallSetSyntax (definitionForFileName E filename)] else [])) @
     [UndoStackClear, UndoStackSetClean]"
  have "newEvents w w' =
          ?pre @ [EditorClear, CallSetSyntax nullSyntax,
                  EditorSetPlainText (m_editor_plainText w')] @ ?post"
    unfolding plain unfolding eq by (simp add: loadContent_newEvents)
  moreover have "\<not> list_ex isEditorClear ?pre" "\<not> list_ex isSetSyntax ?pre"
    "\<not> list_ex isSetPlainText ?pre" "\<not> list_ex isEditorClear ?post"
    "\<not> list_ex isSetPlainText ?post"
    by simp_all
  ultimately have events: "\<exists>pre post.
      newEvents w w' =
        pre @ [EditorClear, CallSetSyntax nullSyntax,
               EditorSetPlainText (m_editor_plainText w')] @ post
      \<and> \<not> list_ex isEditorClear pre \<and> \<not> list_ex isSetSyntax pre
      \<and> \<not> list_ex isSetPlainText pre
      \<and> \<not> list_ex isEditorClear post \<and> \<not> list_ex isSetPlainText post"
    by blast
  have state: "\<exists>content v.
      files E filename = Some content
      \<and> v = snd (beforeSetPlainText E filename textEncoding content
                   (snd (confirmLargeFile E (length content) w)))
      \<and> m_editor_syntax v = nullSyntax \<and> m_syntaxButton v = ''Plain Text''
      \<and> m_editor_plainText v = []
      \<and> m_editor_syntax (editor_setPlainText (m_editor_plainText w') v) = nullSyntax
      \<and> m_editor_plainText (editor_setPlainText (m_editor_plainText w') v) =
          m_editor_plainText w'
      \<and> w' = afterSetPlainText E filename (editor_setPlainText (m_editor_plainText w') v)"
    using opened cut in_editor beforeSetPlainText_editor [of E filename textEncoding content ?w0]
    by blast
  from stack events state show ?thesis
    by (simp add: isClean_def isDocumentModified_def)
qed

lemma loadDocumentFrom_sample:
  "sampleFiles filename = Some content \<Longrightarrow>
   loadDocumentFrom (sampleEnv answer savePath) filename textEncoding w =
     (True, snd (loadDocumentFrom (sampleEnv answer savePath) filename textEncoding w))"
  by (auto simp add: loadDocumentFrom_def sampleEnv_def sampleFiles_def confirmLargeFile_def
        LARGE_FILE_SIZE_def split: if_splits)

text \<open>Loading \<^verbatim>\<open>/tmp/notes.md\<close> over the edited document, which has two commands in its
  history and the Markdown syntax.\<close>

theorem load_resets_history_witness:
  "isDocumentModified editedWindow
   \<and> length (command_list (m_undoStack editedWindow)) = 2
   \<and> m_editor_syntax editedWindow = markdownSyntax
   \<and> fst (loadDocumentFrom (sampleEnv Yes []) ''/tmp/notes.md'' [] editedWindow)
   \<and> command_list (m_undoStack
        (snd (loadDocumentFrom (sampleEnv Yes []) ''/tmp/notes.md'' [] editedWindow))) = []
   \<and> \<not> isDocumentModified
        (snd (loadDocumentFrom (sampleEnv Yes []) ''/tmp/notes.md'' [] editedWindow))
   \<and> m_editor_syntax
        (snd (beforeSetPlainText (sampleEnv Yes []) ''/tmp/notes.md'' [] ''# Notes''
               editedWindow)) = nullSyntax
   \<and> m_editor_plainText
        (snd (beforeSetPlainText (sampleEnv Yes []) ''/tmp/notes.md'' [] ''# Notes''
               editedWindow)) = []
   \<and> snd (loadDocumentFrom (sampleEnv Yes []) ''/tmp/notes.md'' [] editedWindow) =
       afterSetPlainText (sampleEnv Yes []) ''/tmp/notes.md''
         (editor_setPlainText
            (m_editor_plainText
               (snd (loadDocumentFrom (sampleEnv Yes []) ''/tmp/notes.md'' [] editedWindow)))
            (snd (beforeSetPlainText (sampleEnv Yes []) ''/tmp/notes.md'' [] ''# Notes''
                   editedWindow)))"
proof -
  have opened: "files (sampleEnv Yes []) ''/tmp/notes.md'' = Some ''# Notes''"
    by (simp add: sampleEnv_def sampleFiles_def)
  have small: "snd (confirmLargeFile (sampleEnv Yes []) (length ''# Notes'') editedWindow) =
      editedWindow"
    by (simp add: confirmLargeFile_def LARGE_FILE_SIZE_def)
  have run: "loadDocumentFrom (sampleEnv Yes []) ''/tmp/notes.md'' [] editedWindow =
      (True, snd (loadDocumentFrom (sampleEnv Yes []) ''/tmp/notes.md'' [] editedWindow))"
    by (rule loadDocumentFrom_sample [of _ "''# Notes''"]) (simp add: sampleFiles_def)
  note loaded = load_resets_history [OF run]
  from loaded obtain content v where
      "files (sampleEnv Yes []) ''/tmp/notes.md'' = Some content"
    and v: "v = snd (beforeSetPlainText (sampleEnv Yes []) ''/tmp/notes.md'' [] content
                 (snd (confirmLargeFile (sampleEnv Yes []) (length content) editedWindow)))"
    and cleared: "m_editor_syntax v = nullSyntax" "m_editor_plainText v = []"
    and cut: "snd (loadDocumentFrom (sampleEnv Yes []) ''/tmp/notes.md'' [] editedWindow) =
       afterSetPlainText (sampleEnv Yes []) ''/tmp/notes.md''
         (editor_setPlainText
            (m_editor_plainText
               (snd (loadDocumentFrom (sampleEnv Yes []) ''/tmp/notes.md'' [] editedWindow))) v)"
    by blast
  with opened have content: "content = ''# Notes''"
    by simp
  have v': "v = snd (beforeSetPlainText (sampleEnv Yes []) ''/tmp/notes.md'' [] ''# Notes''
                 editedWindow)"
    unfolding v content small ..
  have "isDocumentModified editedWindow"
    by (simp add: isDocumentModified_def isClean_def editedWindow_def)
  moreover have "length (command_list (m_undoStack editedWindow)) = 2"
    "m_editor_syntax editedWindow = markdownSyntax"
    by (simp_all add: editedWindow_def)
  moreover have "fst (loadDocumentFrom (sampleEnv Yes []) ''/tmp/notes.md'' [] editedWindow)"
    using run by (metis fst_conv)
  moreover have "command_list (m_undoStack
        (snd (loadDocumentFrom (sampleEnv Yes []) ''/tmp/notes.md'' [] editedWindow))) = []"
    "\<not> isDocumentModified
        (snd (loadDocumentFrom (sampleEnv Yes []) ''/tmp/notes.md'' [] editedWindow))"
    using loaded by blast+
  ultimately show ?thesis
    using cleared cut unfolding v' by blast
qed

subsection \<open>Changing the encoding and the line endings\<close>

lemma addUndoCommand_undoStack:
  "m_undoStack (addUndoCommand E command w) = stack_push command (m_undoStack w)"
  by (cases command)
     (simp_all add: addUndoCommand_def Let_def m_undoStack_onUndoStack frame document_redo_def
        split: list.splits)

lemma addUndoCommand_trace:
  "trace (addUndoCommand E (ChangeEncodingCommand old new) w) =
     trace w @ UndoStackPush (ChangeEncodingCommand old new) # CallSetEncoding new #
       (if snd (codecForName E new) then [] else [QWarning ''Invalid codec selected''])"
  "trace (addUndoCommand E (ChangeLineEndingCommand old' new') w) =
     trace w @ [UndoStackPush (ChangeLineEndingCommand old' new'), CallSetLineEndingMode new']"
  by (simp_all add: addUndoCommand_def Let_def frame traces)

lemma addUndoCommand_value:
  "m_textEncoding (addUndoCommand E (ChangeEncodingCommand old new) w) = new"
  "m_lineEndingMode (addUndoCommand E (ChangeLineEndingCommand old' new') w) = new'"
  by (simp_all add: addUndoCommand_def Let_def frame setEncoding_def setLineEndingMode_def
        emit_def split: LineEndingMode.splits)

text \<open>
  Claim C1. On a document with no file path, \<^verbatim>\<open>changeEncoding\<close> and
  \<^verbatim>\<open>changeLineEndingMode\<close> are the plain setters: the command history is as it was (so is
  its length) and nothing is pushed. On a document with a file path each pushes one
  metadata command, carrying the old and the new value, onto the history (after the
  commands up to the cursor), and the command is executed at once: the member has the new
  value.
\<close>

theorem metadata_change_history:
  "(m_openFilename w = [] \<longrightarrow>
      changeEncoding E name w = setEncoding E name w
    \<and> changeLineEndingMode E mode w = setLineEndingMode mode w
    \<and> m_undoStack (changeEncoding E name w) = m_undoStack w
    \<and> m_undoStack (changeLineEndingMode E mode w) = m_undoStack w
    \<and> length (command_list (m_undoStack (changeEncoding E name w))) =
        length (command_list (m_undoStack w))
    \<and> length (command_list (m_undoStack (changeLineEndingMode E mode w))) =
        length (command_list (m_undoStack w))
    \<and> filter isPush (newEvents w (changeEncoding E name w)) = []
    \<and> filter isPush (newEvents w (changeLineEndingMode E mode w)) = [])
   \<and> (m_openFilename w \<noteq> [] \<longrightarrow>
      m_undoStack (changeEncoding E name w) =
        stack_push (ChangeEncodingCommand (m_textEncoding w) name) (m_undoStack w)
    \<and> command_list (m_undoStack (changeEncoding E name w)) =
        take (index (m_undoStack w)) (command_list (m_undoStack w)) @
          [ChangeEncodingCommand (m_textEncoding w) name]
    \<and> filter isPush (newEvents w (changeEncoding E name w)) =
        [UndoStackPush (ChangeEncodingCommand (m_textEncoding w) name)]
    \<and> m_textEncoding (changeEncoding E name w) = name
    \<and> m_undoStack (changeLineEndingMode E mode w) =
        stack_push (ChangeLineEndingCommand (m_lineEndingMode w) mode) (m_undoStack w)
    \<and> command_list (m_undoStack (changeLineEndingMode E mode w)) =
        take (index (m_undoStack w)) (command_list (m_undoStack w)) @
          [ChangeLineEndingCommand (m_lineEndingMode w) mode]
    \<and> filter isPush (newEvents w (changeLineEndingMode E mode w)) =
        [UndoStackPush (ChangeLineEndingCommand (m_lineEndingMode w) mode)]
    \<and> m_lineEndingMode (changeLineEndingMode E mode w) = mode)"
proof (cases "m_openFilename w = []")
  case True
  then show ?thesis
    by (simp add: changeEncoding_def changeLineEndingMode_def frame newEvents_def traces)
next
  case False
  then show ?thesis
    by (simp add: changeEncoding_def changeLineEndingMode_def Let_def newEvents_def
          addUndoCommand_undoStack addUndoCommand_trace addUndoCommand_value stack_push_def)
qed

text \<open>On the new document nothing is recorded; on \<^verbatim>\<open>/tmp/notes.md\<close> the history grows
  from two commands to three.\<close>

theorem metadata_change_history_witness:
  "m_openFilename untitledWindow = []
   \<and> command_list (m_undoStack (changeEncoding (sampleEnv No []) ''ISO-8859-1'' untitledWindow)) = []
   \<and> m_textEncoding (changeEncoding (sampleEnv No []) ''ISO-8859-1'' untitledWindow) = ''ISO-8859-1''
   \<and> m_openFilename editedWindow \<noteq> []
   \<and> command_list (m_undoStack (changeEncoding (sampleEnv No []) ''UTF-8'' editedWindow)) =
       [TextEditorUndoCommand, ChangeEncodingCommand ''UTF-8'' ''ISO-8859-1'',
        ChangeEncodingCommand ''ISO-8859-1'' ''UTF-8'']
   \<and> command_list (m_undoStack (changeLineEndingMode (sampleEnv No []) CRLF editedWindow)) =
       [TextEditorUndoCommand, ChangeEncodingCommand ''UTF-8'' ''ISO-8859-1'',
        ChangeLineEndingCommand LFOnly CRLF]"
proof -
  have new: "m_openFilename untitledWindow = []"
    by (simp add: untitledWindow_def)
  have old: "m_openFilename editedWindow \<noteq> []"
    by (simp add: editedWindow_def)
  have "m_undoStack untitledWindow = \<lparr>command_list = [], index = 0, clean_index = 0\<rparr>"
    by (simp add: untitledWindow_def)
  moreover have "m_textEncoding (setEncoding (sampleEnv No []) ''ISO-8859-1'' untitledWindow) =
      ''ISO-8859-1''"
    by (simp add: setEncoding_def Let_def emit_def)
  moreover have "m_undoStack editedWindow =
      \<lparr>command_list = [TextEditorUndoCommand, ChangeEncodingCommand ''UTF-8'' ''ISO-8859-1''],
       index = 2, clean_index = 0\<rparr>"
    "m_textEncoding editedWindow = ''ISO-8859-1''" "m_lineEndingMode editedWindow = LFOnly"
    by (simp_all add: editedWindow_def untitledWindow_def)
  ultimately show ?thesis
    using new old
      metadata_change_history [of untitledWindow "sampleEnv No []" "''ISO-8859-1''" CRLF]
      metadata_change_history [of editedWindow "sampleEnv No []" "''UTF-8''" CRLF]
    by (simp add: frame stack_push_def)
qed

text \<open>
  Claim C7. \<^verbatim>\<open>setEncoding\<close> is total and records the name it is given, whatever the name.
  When the registry does not know the name, the button of the status bar shows
  \<^verbatim>\<open>Invalid (name)\<close> and a warning is logged; otherwise the button shows the name. Either
  way no dialog is shown, and the text, the file path and the command history are as
  they were.
\<close>

theorem setEncoding_soft_failure:
  "m_textEncoding (setEncoding E name w) = name
   \<and> (\<not> snd (codecForName E name) \<longrightarrow>
        m_encodingButton (setEncoding E name w) = ''Invalid ('' @ name @ '')''
      \<and> newEvents w (setEncoding E name w) =
          [CallSetEncoding name, QWarning ''Invalid codec selected''])
   \<and> (snd (codecForName E name) \<longrightarrow>
        m_encodingButton (setEncoding E name w) = name
      \<and> newEvents w (setEncoding E name w) = [CallSetEncoding name])
   \<and> m_editor_plainText (setEncoding E name w) = m_editor_plainText w
   \<and> m_openFilename (setEncoding E name w) = m_openFilename w
   \<and> m_undoStack (setEncoding E name w) = m_undoStack w
   \<and> \<not> list_ex isDialog (newEvents w (setEncoding E name w))"
  by (simp add: frame newEvents_def traces) (simp add: setEncoding_def Let_def emit_def)

text \<open>A name the registry does not know, and one it knows.\<close>

theorem setEncoding_soft_failure_witness:
  "\<not> snd (codecForName (sampleEnv No []) ''latin9'')
   \<and> m_textEncoding (setEncoding (sampleEnv No []) ''latin9'' editedWindow) = ''latin9''
   \<and> m_encodingButton (setEncoding (sampleEnv No []) ''latin9'' editedWindow) = ''Invalid (latin9)''
   \<and> snd (codecForName (sampleEnv No []) ''UTF-8'')
   \<and> m_encodingButton (setEncoding (sampleEnv No []) ''UTF-8'' editedWindow) = ''UTF-8''"
proof -
  have bad: "\<not> snd (codecForName (sampleEnv No []) ''latin9'')"
    by (simp add: sampleEnv_def sampleCodecForName_def)
  have good: "snd (codecForName (sampleEnv No []) ''UTF-8'')"
    by (simp add: sampleEnv_def sampleCodecForName_def)
  show ?thesis
    using bad good
      setEncoding_soft_failure [of "sampleEnv No []" "''latin9''" editedWindow]
      setEncoding_soft_failure [of "sampleEnv No []" "''UTF-8''" editedWindow]
    by simp
qed

subsection \<open>Saving\<close>

lemma saveAndRecord_result:
  "fst (saveAndRecord path w)"
  "m_openFilename (snd (saveAndRecord path w)) = path"
  "m_documentTitle (snd (saveAndRecord path w)) = fileName path"
  "m_undoStack (snd (saveAndRecord path w)) = stack_setClean (m_undoStack w)"
  "m_editor_undoStack (snd (saveAndRecord path w)) = []"
  "m_editor_redoStack (snd (saveAndRecord path w)) = []"
  "m_editor_plainText (snd (saveAndRecord path w)) = m_editor_plainText w"
  "trace (snd (saveAndRecord path w)) =
     trace w @ [CallSaveDocumentTo path, UndoStackSetClean, ClearUndoRedoStacks]"
  by (simp_all add: saveAndRecord_def saveDocumentTo_def Let_def frame traces
        m_undoStack_undoStack clearUndoRedoStacks_def emit_def)

lemma saveAndRecord_title:
  "windowTitle (snd (saveAndRecord path w)) = fileName path @ '' '' @ ndash @ '' qtextpad''"
proof -
  have "windowTitle (updateTitle v) = m_documentTitle v @ '' '' @ ndash @ '' qtextpad''"
    if "isClean (m_undoStack v)" for v
    using that by (simp add: updateTitle_def Let_def isDocumentModified_def)
  then show ?thesis
    by (simp add: saveAndRecord_def saveDocumentTo_def Let_def frame m_undoStack_undoStack
          isClean_def stack_setClean_def)
qed

lemma saveDocument_True:
  assumes "saveDocument E w = (True, w')"
  shows "(if m_openFilename w = [] then getSaveFileName E ''Save File'' else m_openFilename w) \<noteq> []"
    and "w' = snd (saveAndRecord
           (if m_openFilename w = [] then getSaveFileName E ''Save File'' else m_openFilename w)
           (if m_openFilename w = [] then emit (FileDialog ''Save File'') w else w))"
  using assms by (simp_all add: saveDocument_def split: if_splits)

lemma saveDocumentAs_True:
  assumes "saveDocumentAs E w = (True, w')"
  shows "getSaveFileName E ''Save File As'' \<noteq> []"
    and "w' = snd (saveAndRecord (getSaveFileName E ''Save File As'')
                     (emit (FileDialog ''Save File As'') w))"
  using assms by (simp_all add: saveDocumentAs_def Let_def split: if_splits)

lemma saveAndRecord_saved:
  assumes "path \<noteq> []" and "w' = snd (saveAndRecord path v)"
    and "m_undoStack v = m_undoStack w" and "m_editor_plainText v = m_editor_plainText w"
  shows "m_editor_undoStack w' = [] \<and> m_editor_redoStack w' = []
    \<and> isClean (m_undoStack w') \<and> \<not> isDocumentModified w'
    \<and> command_list (m_undoStack w') = command_list (m_undoStack w)
    \<and> m_openFilename w' = path \<and> m_openFilename w' \<noteq> []
    \<and> m_documentTitle w' = fileName (m_openFilename w')
    \<and> windowTitle w' = fileName (m_openFilename w') @ '' '' @ ndash @ '' qtextpad''
    \<and> m_editor_plainText w' = m_editor_plainText w"
  using assms
  by (simp add: saveAndRecord_result saveAndRecord_title isDocumentModified_def
        isClean_def stack_setClean_def)

text \<open>
  Claim C9. After a \<^verbatim>\<open>saveDocument\<close> or a \<^verbatim>\<open>saveDocumentAs\<close> that returns \<^verbatim>\<open>true\<close>, the
  command history is clean (its commands are kept), the file path is the saved path and
  the title its file name, and the undo and redo stacks of the editor's document are empty:
  no edit made before the save can be undone through the buffer. The text is as it was.
\<close>

theorem save_clears_buffer_undo:
  assumes "saveDocument E w = (True, w') \<or> saveDocumentAs E w = (True, w')"
  shows "m_editor_undoStack w' = [] \<and> m_editor_redoStack w' = []
    \<and> isClean (m_undoStack w') \<and> \<not> isDocumentModified w'
    \<and> command_list (m_undoStack w') = command_list (m_undoStack w)
    \<and> m_openFilename w' \<noteq> []
    \<and> (saveDocument E w = (True, w') \<longrightarrow>
          m_openFilename w' =
            (if m_openFilename w = [] then getSaveFileName E ''Save File'' else m_openFilename w))
    \<and> (saveDocumentAs E w = (True, w') \<longrightarrow>
          m_openFilename w' = getSaveFileName E ''Save File As'')
    \<and> m_documentTitle w' = fileName (m_openFilename w')
    \<and> windowTitle w' = fileName (m_openFilename w') @ '' '' @ ndash @ '' qtextpad''
    \<and> m_editor_plainText w' = m_editor_plainText w"
proof -
  let ?v = "if m_openFilename w = [] then emit (FileDialog ''Save File'') w else w"
  let ?u = "emit (FileDialog ''Save File As'') w"
  have v: "m_undoStack ?v = m_undoStack w" "m_editor_plainText ?v = m_editor_plainText w"
    by (simp_all add: frame)
  have u: "m_undoStack ?u = m_undoStack w" "m_editor_plainText ?u = m_editor_plainText w"
    by (simp_all add: frame)
  have plain: "m_openFilename w' =
      (if m_openFilename w = [] then getSaveFileName E ''Save File'' else m_openFilename w)"
    if h: "saveDocument E w = (True, w')"
    using saveAndRecord_saved [OF saveDocument_True [OF h] v] by simp
  have as: "m_openFilename w' = getSaveFileName E ''Save File As''"
    if h: "saveDocumentAs E w = (True, w')"
    using saveAndRecord_saved [OF saveDocumentAs_True [OF h] u] by simp
  from assms show ?thesis
  proof
    assume h: "saveDocument E w = (True, w')"
    from saveAndRecord_saved [OF saveDocument_True [OF h] v] plain as
    show ?thesis by blast
  next
    assume h: "saveDocumentAs E w = (True, w')"
    from saveAndRecord_saved [OF saveDocumentAs_True [OF h] u] plain as
    show ?thesis by blast
  qed
qed

text \<open>Saving the edited \<^verbatim>\<open>/tmp/notes.md\<close>, whose document has one undo step, in place and
  under another name.\<close>

theorem save_clears_buffer_undo_witness:
  "m_editor_undoStack editedWindow = [''# Notes'']
   \<and> isDocumentModified editedWindow
   \<and> fst (saveDocument (sampleEnv No []) editedWindow)
   \<and> m_editor_undoStack (snd (saveDocument (sampleEnv No []) editedWindow)) = []
   \<and> \<not> isDocumentModified (snd (saveDocument (sampleEnv No []) editedWindow))
   \<and> length (command_list (m_undoStack (snd (saveDocument (sampleEnv No []) editedWindow)))) = 2
   \<and> m_openFilename (snd (saveDocument (sampleEnv No []) editedWindow)) = ''/tmp/notes.md''
   \<and> fst (saveDocumentAs (sampleEnv No ''/tmp/copy.md'') editedWindow)
   \<and> m_editor_undoStack (snd (saveDocumentAs (sampleEnv No ''/tmp/copy.md'') editedWindow)) = []
   \<and> m_openFilename (snd (saveDocumentAs (sampleEnv No ''/tmp/copy.md'') editedWindow)) =
       ''/tmp/copy.md''"
proof -
  have path: "m_openFilename editedWindow = ''/tmp/notes.md''"
    by (simp add: editedWindow_def)
  have chosen: "getSaveFileName (sampleEnv No ''/tmp/copy.md'') caption = ''/tmp/copy.md''"
    for caption
    by (simp add: sampleEnv_def)
  have run: "saveDocument (sampleEnv No []) editedWindow =
      (True, snd (saveDocument (sampleEnv No []) editedWindow))"
  proof -
    have "saveDocument (sampleEnv No []) editedWindow =
        saveAndRecord ''/tmp/notes.md'' editedWindow"
      using path by (simp add: saveDocument_def)
    moreover have "fst (saveAndRecord ''/tmp/notes.md'' editedWindow)"
      by (rule saveAndRecord_result)
    ultimately show ?thesis
      by (simp add: prod_eq_iff)
  qed
  have runAs: "saveDocumentAs (sampleEnv No ''/tmp/copy.md'') editedWindow =
      (True, snd (saveDocumentAs (sampleEnv No ''/tmp/copy.md'') editedWindow))"
  proof -
    have "saveDocumentAs (sampleEnv No ''/tmp/copy.md'') editedWindow =
        saveAndRecord ''/tmp/copy.md'' (emit (FileDialog ''Save File As'') editedWindow)"
      by (simp add: saveDocumentAs_def Let_def chosen)
    moreover have "fst (saveAndRecord ''/tmp/copy.md''
        (emit (FileDialog ''Save File As'') editedWindow))"
      by (rule saveAndRecord_result)
    ultimately show ?thesis
      by (simp add: prod_eq_iff)
  qed
  have "m_editor_undoStack editedWindow = [''# Notes'']"
    "isDocumentModified editedWindow"
    "length (command_list (m_undoStack editedWindow)) = 2"
    by (simp_all add: editedWindow_def isDocumentModified_def isClean_def)
  moreover have "fst (saveDocument (sampleEnv No []) editedWindow)"
    using run by (metis fst_conv)
  moreover have "fst (saveDocumentAs (sampleEnv No ''/tmp/copy.md'') editedWindow)"
    using runAs by (metis fst_conv)
  ultimately show ?thesis
    using run runAs path chosen
      save_clears_buffer_undo [of "sampleEnv No []" editedWindow, OF disjI1, OF run]
      save_clears_buffer_undo [of "sampleEnv No ''/tmp/copy.md''" editedWindow, OF disjI2, OF runAs]
    by simp
qed

subsection \<open>The save prompt\<close>

lemma resetDocument_trace:
  "trace (resetDocument E w) =
     trace w @ [EditorClear, ClearUndoRedoStacks, CallSetSyntax nullSyntax, CallSetEncoding ''UTF-8''] @
       (if snd (codecForName E ''UTF-8'') then [] else [QWarning ''Invalid codec selected'']) @
       [CallSetLineEndingMode (if win32 E then CRLF else LFOnly), UndoStackClear,
        UndoStackSetClean]"
  by (simp add: resetDocument_def Let_def frame traces)

text \<open>
  Claim C10. When \<^verbatim>\<open>isDocumentModified()\<close> is false, \<^verbatim>\<open>promptForSave\<close> returns \<^verbatim>\<open>true\<close>
  and leaves the window as it is: no dialog, no save. So \<^verbatim>\<open>newDocument\<close> is the reset
  alone and \<^verbatim>\<open>closeEvent\<close> accepts after storing the window size, and neither shows a
  dialog or calls \<^verbatim>\<open>saveDocumentTo\<close>.
\<close>

theorem promptForSave_clean:
  assumes "\<not> isDocumentModified w"
  shows "promptForSave E w = (True, w)
    \<and> newDocument E w = resetDocument E w
    \<and> closeEvent E w = (True, emit SettingsSetWindowSize w)
    \<and> \<not> list_ex isDialog (newEvents w (newDocument E w))
    \<and> \<not> list_ex isSave (newEvents w (newDocument E w))
    \<and> newEvents w (snd (closeEvent E w)) = [SettingsSetWindowSize]"
proof -
  have prompt: "promptForSave E w = (True, w)"
    using assms by (simp add: promptForSave_def)
  have new: "newDocument E w = resetDocument E w"
    by (simp add: newDocument_def prompt)
  have close: "closeEvent E w = (True, emit SettingsSetWindowSize w)"
    by (simp add: closeEvent_def prompt)
  show ?thesis
    by (simp add: prompt new close newEvents_def resetDocument_trace traces)
qed

text \<open>The new document is clean; the edited one is not, and there the prompt is shown.\<close>

theorem promptForSave_clean_witness:
  "\<not> isDocumentModified untitledWindow
   \<and> promptForSave (sampleEnv Cancel []) untitledWindow = (True, untitledWindow)
   \<and> newDocument (sampleEnv Cancel []) untitledWindow =
       resetDocument (sampleEnv Cancel []) untitledWindow
   \<and> fst (closeEvent (sampleEnv Cancel []) untitledWindow)"
proof -
  have clean: "\<not> isDocumentModified untitledWindow"
    by (simp add: isDocumentModified_def isClean_def untitledWindow_def)
  show ?thesis
    using clean promptForSave_clean [OF clean, of "sampleEnv Cancel []"] by simp
qed

subsection \<open>Loading: the codec, the gate, the order and the syntax\<close>

lemma loadDocumentFrom_events:
  assumes "files E filename = Some content"
  shows "newEvents w (snd (loadDocumentFrom E filename textEncoding w)) =
     (if LARGE_FILE_SIZE < length content \<and> question E largeFileWarning = No
      then [MsgQuestion largeFileWarning]
      else newEvents w (loadContent E filename textEncoding content
                          (snd (confirmLargeFile E (length content) w))))"
  using assms
  by (simp add: loadDocumentFrom_def confirmLargeFile_def Let_def newEvents_def traces)

lemma loadDocumentFrom_newEvents:
  assumes "files E filename = Some content"
  shows "newEvents w (snd (loadDocumentFrom E filename textEncoding w)) =
     (if LARGE_FILE_SIZE < length content \<and> question E largeFileWarning = No
      then [MsgQuestion largeFileWarning]
      else
       (if LARGE_FILE_SIZE < length content then [MsgQuestion largeFileWarning] else []) @
       CallSetLineEndingMode (lineEndings (detect E (take DETECTION_SIZE content) filename)) #
       (if textEncoding \<noteq> [] \<and> \<not> snd (codecForName E textEncoding)
        then [QDebug (''Invalid manually-specified encoding: '' @ textEncoding)] else []) @
       CallSetEncoding (m_textEncoding (loadContent E filename textEncoding content w)) #
       (if snd (codecForName E (m_textEncoding (loadContent E filename textEncoding content w)))
        then [] else [QWarning ''Invalid codec selected'']) @
       [EditorClear, CallSetSyntax nullSyntax,
        EditorSetPlainText (m_editor_plainText (loadContent E filename textEncoding content w)),
        ClearUndoRedoStacks, DefinitionForFileMagic filename] @
       (if isValid (definitionForFileMagic E filename)
        then [CallSetSyntax (definitionForFileMagic E filename)]
        else DefinitionForFileName filename #
          (if isValid (definitionForFileName E filename)
           then [CallSetSyntax (definitionForFileName E filename)] else [])) @
       [UndoStackClear, UndoStackSetClean])"
  by (simp only: loadDocumentFrom_events [OF assms] loadContent_newEvents)

lemma loadDocumentFrom_fst:
  assumes "files E filename = Some content"
  shows "fst (loadDocumentFrom E filename textEncoding w) =
     (\<not> (LARGE_FILE_SIZE < length content \<and> question E largeFileWarning = No))"
  using assms by (simp add: loadDocumentFrom_def confirmLargeFile_def Let_def)

text \<open>
  Claim C3. In a load that succeeds, when \<^verbatim>\<open>textEncoding\<close> is not empty and the registry
  resolves it (\<^verbatim>\<open>ok\<close>, a codec), that codec decodes the file and its name becomes the
  encoding; when \<^verbatim>\<open>textEncoding\<close> is empty or is not resolved, the codec the detector
  guessed does. \<^verbatim>\<open>setEncoding\<close> is called once, with that name.
\<close>

theorem load_effective_codec:
  assumes "loadDocumentFrom E filename textEncoding w = (True, w')"
    and "files E filename = Some content"
  shows "(\<forall>codec. textEncoding \<noteq> [] \<and> codecForName E textEncoding = (Some codec, True) \<longrightarrow>
            m_textEncoding w' = codec_name codec
          \<and> m_editor_plainText w' =
              concat (decodeBlocks codec []
                (drop (bomOffset (detect E (take DETECTION_SIZE content) filename)) content) []))
    \<and> (textEncoding = [] \<or> \<not> snd (codecForName E textEncoding)
          \<or> fst (codecForName E textEncoding) = None \<longrightarrow>
            m_textEncoding w' =
              codec_name (textCodec (detect E (take DETECTION_SIZE content) filename))
          \<and> m_editor_plainText w' =
              concat (decodeBlocks (textCodec (detect E (take DETECTION_SIZE content) filename)) []
                (drop (bomOffset (detect E (take DETECTION_SIZE content) filename)) content) []))
    \<and> filter isSetEncoding (newEvents w w') = [CallSetEncoding (m_textEncoding w')]"
proof -
  from assms(1) obtain content' where "files E filename = Some content'"
    and "w' = loadContent E filename textEncoding content'
                (snd (confirmLargeFile E (length content') w))"
    by (rule loadDocumentFrom_True)
  with assms(2) have eq: "w' = loadContent E filename textEncoding content
                (snd (confirmLargeFile E (length content) w))"
    by simp
  have enc: "m_textEncoding w' = m_textEncoding (loadContent E filename textEncoding content w)"
    by (simp add: eq loadContent_encoding fst_manualCodec)
  have calls: "filter isSetEncoding (newEvents w w') = [CallSetEncoding (m_textEncoding w')]"
    unfolding enc unfolding eq by (simp add: loadContent_newEvents)
  show ?thesis
    using calls by (auto simp: eq loadContent_encoding loadContent_plainText fst_manualCodec)
qed

text \<open>\<^verbatim>\<open>/tmp/notes.md\<close> loaded with a known encoding, with an unknown one and with none.\<close>

theorem load_effective_codec_witness:
  "m_textEncoding (snd (loadDocumentFrom (sampleEnv Yes []) ''/tmp/notes.md'' ''ISO-8859-1''
      untitledWindow)) = ''ISO-8859-1''
   \<and> m_textEncoding (snd (loadDocumentFrom (sampleEnv Yes []) ''/tmp/notes.md'' ''KOI8''
      untitledWindow)) = ''UTF-8''
   \<and> m_textEncoding (snd (loadDocumentFrom (sampleEnv Yes []) ''/tmp/notes.md'' []
      untitledWindow)) = ''UTF-8''
   \<and> m_editor_plainText (snd (loadDocumentFrom (sampleEnv Yes []) ''/tmp/notes.md'' []
      untitledWindow)) = ''# Notes''"
proof -
  have opened: "files (sampleEnv Yes []) ''/tmp/notes.md'' = Some ''# Notes''"
    by (simp add: sampleEnv_def sampleFiles_def)
  have run: "loadDocumentFrom (sampleEnv Yes []) ''/tmp/notes.md'' enc untitledWindow =
      (True, snd (loadDocumentFrom (sampleEnv Yes []) ''/tmp/notes.md'' enc untitledWindow))"
    for enc
    by (rule loadDocumentFrom_sample [of _ "''# Notes''"]) (simp add: sampleFiles_def)
  have known: "codecForName (sampleEnv Yes []) ''ISO-8859-1'' =
      (Some (sampleCodec ''ISO-8859-1''), True)"
    by (simp add: sampleEnv_def sampleCodecForName_def)
  have unknown: "\<not> snd (codecForName (sampleEnv Yes []) ''KOI8'')"
    by (simp add: sampleEnv_def sampleCodecForName_def)
  have guess: "detect (sampleEnv Yes []) prefix ''/tmp/notes.md'' =
      \<lparr>lineEndings = CRLF, textCodec = sampleCodec ''UTF-8'', bomOffset = 0\<rparr>" for prefix
    by (simp add: sampleEnv_def)
  have decoded: "decodeBlocks (sampleCodec ''UTF-8'') [] ''# Notes'' [] = [''# Notes'']"
    by (simp add: decodeBlocks_one_block DECODE_BLOCK_SIZE_def sampleCodec_def)
  have named: "codec_name (sampleCodec n) = n" for n
    by (simp add: sampleCodec_def)
  show ?thesis
    using known unknown
      load_effective_codec [OF run opened, of "''ISO-8859-1''"]
      load_effective_codec [OF run opened, of "''KOI8''"]
      load_effective_codec [OF run opened, of "[]"]
    by (simp add: guess decoded named)
qed

text \<open>
  Claim C4. For a file that opens, the load shows a dialog exactly when the size of the file
  is greater than \<open>LARGE_FILE_SIZE\<close>, which is 10 MiB, and then it is the large-file
  question, once. The load goes on unless the file is larger and the answer is No; then it
  returns \<^verbatim>\<open>false\<close> and the window is as it was, but for the question in the trace.
\<close>

theorem large_file_gate:
  assumes "files E filename = Some content"
  shows "LARGE_FILE_SIZE = 10 * 1024 * 1024
    \<and> filter isDialog (newEvents w (snd (loadDocumentFrom E filename textEncoding w))) =
        (if LARGE_FILE_SIZE < length content then [MsgQuestion largeFileWarning] else [])
    \<and> (list_ex isDialog (newEvents w (snd (loadDocumentFrom E filename textEncoding w)))
         = (LARGE_FILE_SIZE < length content))
    \<and> fst (loadDocumentFrom E filename textEncoding w) =
        (\<not> (LARGE_FILE_SIZE < length content \<and> question E largeFileWarning = No))
    \<and> (LARGE_FILE_SIZE < length content \<and> question E largeFileWarning = No \<longrightarrow>
          loadDocumentFrom E filename textEncoding w =
            (False, emit (MsgQuestion largeFileWarning) w)
        \<and> (snd (loadDocumentFrom E filename textEncoding w))\<lparr>trace := trace w\<rparr> = w)"
proof -
  have dialogs: "filter isDialog (newEvents w (snd (loadDocumentFrom E filename textEncoding w))) =
      (if LARGE_FILE_SIZE < length content then [MsgQuestion largeFileWarning] else [])"
    by (simp add: loadDocumentFrom_events [OF assms] loadContent_newEvents)
  have shown: "list_ex isDialog (newEvents w (snd (loadDocumentFrom E filename textEncoding w)))
      = (LARGE_FILE_SIZE < length content)"
    by (simp add: loadDocumentFrom_events [OF assms] loadContent_newEvents)
  have declined: "loadDocumentFrom E filename textEncoding w =
      (False, emit (MsgQuestion largeFileWarning) w)"
    if "LARGE_FILE_SIZE < length content" "question E largeFileWarning = No"
    using that assms by (simp add: loadDocumentFrom_def confirmLargeFile_def Let_def)
  have same: "(emit e w)\<lparr>trace := trace w\<rparr> = w" for e
    by (simp add: emit_def)
  show ?thesis
    using dialogs shown declined same loadDocumentFrom_fst [OF assms]
    by (simp add: LARGE_FILE_SIZE_def)
qed

text \<open>A file of exactly 10 MiB and a file one byte larger, with a user who would say No.\<close>

theorem large_file_gate_witness:
  "length (bigFile 10485760) = 10 * 1024 * 1024
   \<and> \<not> list_ex isDialog (newEvents editedWindow
         (snd (loadDocumentFrom (bigFileEnv 10485760 No) ''/tmp/big'' [] editedWindow)))
   \<and> fst (loadDocumentFrom (bigFileEnv 10485760 No) ''/tmp/big'' [] editedWindow)
   \<and> length (bigFile 10485761) = 10 * 1024 * 1024 + 1
   \<and> list_ex isDialog (newEvents editedWindow
         (snd (loadDocumentFrom (bigFileEnv 10485761 No) ''/tmp/big'' [] editedWindow)))
   \<and> loadDocumentFrom (bigFileEnv 10485761 No) ''/tmp/big'' [] editedWindow =
       (False, emit (MsgQuestion largeFileWarning) editedWindow)
   \<and> fst (loadDocumentFrom (bigFileEnv 10485761 Yes) ''/tmp/big'' [] editedWindow)"
proof -
  have opened: "files (bigFileEnv n answer) ''/tmp/big'' = Some (bigFile n)" for n answer
    by (simp add: bigFileEnv_def)
  have len: "length (bigFile n) = n" for n
    by (simp add: bigFile_def)
  have answer: "question (bigFileEnv n a) largeFileWarning = a" for n a
    by (simp add: bigFileEnv_def sampleEnv_def)
  show ?thesis
    using large_file_gate [where w = editedWindow and textEncoding = "[]",
        OF opened [of 10485760 No]]
      large_file_gate [where w = editedWindow and textEncoding = "[]",
        OF opened [of 10485761 No]]
      large_file_gate [where w = editedWindow and textEncoding = "[]",
        OF opened [of 10485761 Yes]]
    by (simp add: len answer LARGE_FILE_SIZE_def newEvents_def trace_emit)
qed

text \<open>
  Claim C5, as the spec states it: the encoding is applied (step 4) before the line-ending
  mode (step 5). The code calls \<^verbatim>\<open>setLineEndingMode\<close> first: loading
  \<^verbatim>\<open>/tmp/report.txt\<close>, both setters are called, and no call of \<^verbatim>\<open>setEncoding\<close> comes
  before a call of \<^verbatim>\<open>setLineEndingMode\<close>.
\<close>

theorem load_order_counterexample:
  "fst (loadDocumentFrom (sampleEnv Yes []) ''/tmp/report.txt'' [] untitledWindow)
   \<and> list_ex isSetEncoding (newEvents untitledWindow
        (snd (loadDocumentFrom (sampleEnv Yes []) ''/tmp/report.txt'' [] untitledWindow)))
   \<and> list_ex isSetLineEndingMode (newEvents untitledWindow
        (snd (loadDocumentFrom (sampleEnv Yes []) ''/tmp/report.txt'' [] untitledWindow)))
   \<and> \<not> occursBefore isSetEncoding isSetLineEndingMode (newEvents untitledWindow
        (snd (loadDocumentFrom (sampleEnv Yes []) ''/tmp/report.txt'' [] untitledWindow)))"
proof -
  have opened: "files (sampleEnv Yes []) ''/tmp/report.txt'' = Some ''#!/bin/sh''"
    by (simp add: sampleEnv_def sampleFiles_def)
  show ?thesis
    by (simp add: loadDocumentFrom_fst [OF opened] loadDocumentFrom_newEvents [OF opened]
          LARGE_FILE_SIZE_def)
qed

text \<open>
  Claim C5, amended. In a load that succeeds, \<^verbatim>\<open>setLineEndingMode\<close> is called once, with
  the line endings the detector guessed, and \<^verbatim>\<open>setEncoding\<close> once, with the name of the
  effective codec; the call of \<^verbatim>\<open>setLineEndingMode\<close> comes first, and both come before the
  text is put into the editor.
\<close>

theorem load_order:
  assumes "loadDocumentFrom E filename textEncoding w = (True, w')"
    and "files E filename = Some content"
  shows "filter isSetLineEndingMode (newEvents w w') =
        [CallSetLineEndingMode (lineEndings (detect E (take DETECTION_SIZE content) filename))]
    \<and> filter isSetEncoding (newEvents w w') = [CallSetEncoding (m_textEncoding w')]
    \<and> occursBefore isSetLineEndingMode isSetEncoding (newEvents w w')
    \<and> \<not> occursBefore isSetEncoding isSetLineEndingMode (newEvents w w')
    \<and> occursBefore isSetEncoding isSetPlainText (newEvents w w')
    \<and> m_lineEndingMode w' = lineEndings (detect E (take DETECTION_SIZE content) filename)"
proof -
  from assms(1) obtain content' where "files E filename = Some content'"
    and "w' = loadContent E filename textEncoding content'
                (snd (confirmLargeFile E (length content') w))"
    by (rule loadDocumentFrom_True)
  with assms(2) have eq: "w' = loadContent E filename textEncoding content
                (snd (confirmLargeFile E (length content) w))"
    by simp
  have enc: "m_textEncoding w' = m_textEncoding (loadContent E filename textEncoding content w)"
    by (simp add: eq loadContent_encoding fst_manualCodec)
  have mode: "m_lineEndingMode w' = lineEndings (detect E (take DETECTION_SIZE content) filename)"
    by (simp add: eq loadContent_lineEndingMode)
  show ?thesis
    unfolding enc mode unfolding eq by (simp add: loadContent_newEvents loadContent_lineEndingMode)
qed

text \<open>Loading \<^verbatim>\<open>/tmp/notes.md\<close> with an unknown encoding over the edited document.\<close>

theorem load_order_witness:
  "fst (loadDocumentFrom (sampleEnv Yes []) ''/tmp/notes.md'' ''KOI8'' editedWindow)
   \<and> filter isSetLineEndingMode (newEvents editedWindow
        (snd (loadDocumentFrom (sampleEnv Yes []) ''/tmp/notes.md'' ''KOI8'' editedWindow))) =
       [CallSetLineEndingMode CRLF]
   \<and> occursBefore isSetLineEndingMode isSetEncoding (newEvents editedWindow
        (snd (loadDocumentFrom (sampleEnv Yes []) ''/tmp/notes.md'' ''KOI8'' editedWindow)))
   \<and> m_lineEndingMode
        (snd (loadDocumentFrom (sampleEnv Yes []) ''/tmp/notes.md'' ''KOI8'' editedWindow)) = CRLF"
proof -
  have opened: "files (sampleEnv Yes []) ''/tmp/notes.md'' = Some ''# Notes''"
    by (simp add: sampleEnv_def sampleFiles_def)
  have run: "loadDocumentFrom (sampleEnv Yes []) ''/tmp/notes.md'' ''KOI8'' editedWindow =
      (True, snd (loadDocumentFrom (sampleEnv Yes []) ''/tmp/notes.md'' ''KOI8'' editedWindow))"
    by (rule loadDocumentFrom_sample [of _ "''# Notes''"]) (simp add: sampleFiles_def)
  have guess: "lineEndings (detect (sampleEnv Yes []) prefix ''/tmp/notes.md'') = CRLF" for prefix
    by (simp add: sampleEnv_def)
  have "fst (loadDocumentFrom (sampleEnv Yes []) ''/tmp/notes.md'' ''KOI8'' editedWindow)"
    using run by (metis fst_conv)
  then show ?thesis
    using load_order [OF run opened] by (simp add: guess)
qed

text \<open>
  Claim C6. In a load that succeeds the definition libmagic finds for the file is looked up
  first; when it is valid it is the syntax, and the definition of the file name is not
  looked up. When it is not valid the definition of the file name is looked up, and is the
  syntax when valid. When neither is valid the syntax stays the null definition set before
  the text was replaced: plain text.
\<close>

theorem load_syntax_precedence:
  assumes "loadDocumentFrom E filename textEncoding w = (True, w')"
  shows "DefinitionForFileMagic filename \<in> set (newEvents w w')
    \<and> (isValid (definitionForFileMagic E filename) \<longrightarrow>
          m_editor_syntax w' = definitionForFileMagic E filename
        \<and> m_syntaxButton w' = translatedName (definitionForFileMagic E filename)
        \<and> DefinitionForFileName filename \<notin> set (newEvents w w'))
    \<and> (\<not> isValid (definitionForFileMagic E filename) \<longrightarrow>
          DefinitionForFileName filename \<in> set (newEvents w w')
        \<and> occursBefore (\<lambda>e. e = DefinitionForFileMagic filename)
             (\<lambda>e. e = DefinitionForFileName filename) (newEvents w w'))
    \<and> (\<not> isValid (definitionForFileMagic E filename)
          \<and> isValid (definitionForFileName E filename) \<longrightarrow>
          m_editor_syntax w' = definitionForFileName E filename
        \<and> m_syntaxButton w' = translatedName (definitionForFileName E filename))
    \<and> (\<not> isValid (definitionForFileMagic E filename)
          \<and> \<not> isValid (definitionForFileName E filename) \<longrightarrow>
          m_editor_syntax w' = nullSyntax \<and> m_syntaxButton w' = ''Plain Text'')"
proof -
  from assms obtain content where
    eq: "w' = loadContent E filename textEncoding content
                (snd (confirmLargeFile E (length content) w))"
    by (rule loadDocumentFrom_True)
  show ?thesis
    unfolding eq
    by (simp add: loadContent_newEvents loadContent_syntax loadContent_syntaxButton)
qed

text \<open>The script \<^verbatim>\<open>report.txt\<close>, \<^verbatim>\<open>idle3.6\<close> (a Python script whose name looks like a
  manual page), a Markdown file known by its name only, and a file nothing recognises.\<close>

theorem load_syntax_precedence_witness:
  "m_editor_syntax (snd (loadDocumentFrom (sampleEnv Yes []) ''/tmp/report.txt'' []
      untitledWindow)) = shellSyntax
   \<and> isValid (definitionForFileName (sampleEnv Yes []) ''/tmp/idle3.6'')
   \<and> m_editor_syntax (snd (loadDocumentFrom (sampleEnv Yes []) ''/tmp/idle3.6'' []
      untitledWindow)) = pythonSyntax
   \<and> m_editor_syntax (snd (loadDocumentFrom (sampleEnv Yes []) ''/tmp/notes.md'' []
      untitledWindow)) = markdownSyntax
   \<and> m_editor_syntax (snd (loadDocumentFrom (sampleEnv Yes []) ''/tmp/README'' []
      editedWindow)) = nullSyntax
   \<and> m_syntaxButton (snd (loadDocumentFrom (sampleEnv Yes []) ''/tmp/README'' []
      editedWindow)) = ''Plain Text''"
proof -
  have run: "sampleFiles filename \<noteq> None \<Longrightarrow>
      loadDocumentFrom (sampleEnv Yes []) filename [] v =
        (True, snd (loadDocumentFrom (sampleEnv Yes []) filename [] v))" for filename v
    using loadDocumentFrom_sample [of filename] by auto
  have files: "sampleFiles ''/tmp/report.txt'' \<noteq> None" "sampleFiles ''/tmp/idle3.6'' \<noteq> None"
    "sampleFiles ''/tmp/notes.md'' \<noteq> None" "sampleFiles ''/tmp/README'' \<noteq> None"
    by (simp_all add: sampleFiles_def)
  have magic: "definitionForFileMagic (sampleEnv Yes []) = sampleFileMagic"
    and name: "definitionForFileName (sampleEnv Yes []) = sampleFileName"
    by (simp_all add: sampleEnv_def)
  have lookups:
    "sampleFileMagic ''/tmp/report.txt'' = shellSyntax"
    "sampleFileMagic ''/tmp/idle3.6'' = pythonSyntax"
    "sampleFileName ''/tmp/idle3.6'' = troffSyntax"
    "sampleFileMagic ''/tmp/notes.md'' = nullSyntax"
    "sampleFileName ''/tmp/notes.md'' = markdownSyntax"
    "sampleFileMagic ''/tmp/README'' = nullSyntax"
    "sampleFileName ''/tmp/README'' = nullSyntax"
    by (simp_all add: sampleFileMagic_def sampleFileName_def)
  have valid: "isValid shellSyntax" "isValid pythonSyntax" "isValid troffSyntax"
    "isValid markdownSyntax" "\<not> isValid nullSyntax"
    by (simp_all add: shellSyntax_def pythonSyntax_def troffSyntax_def markdownSyntax_def
          nullSyntax_def)
  show ?thesis
    using load_syntax_precedence [OF run [OF files(1)], of untitledWindow]
      load_syntax_precedence [OF run [OF files(2)], of untitledWindow]
      load_syntax_precedence [OF run [OF files(3)], of untitledWindow]
      load_syntax_precedence [OF run [OF files(4)], of editedWindow]
    by (simp add: magic name lookups valid)
qed

subsection \<open>Saving and loading again\<close>

text \<open>
  Claim C8: a save followed by a load of the same path gives back the text, the line-ending
  mode and the encoding. \<^verbatim>\<open>saveDocumentTo\<close> returns \<^verbatim>\<open>true\<close> and writes nothing, so this
  fails on the edited document (text \<^verbatim>\<open># Notes!\<close>, ISO-8859-1, LF): saved to a path that
  does not exist, the load cannot open the file; saved over \<^verbatim>\<open>/tmp/report.txt\<close>, the load
  gives the old bytes of that file, with the encoding and line endings detected in them.
\<close>

theorem saveDocumentTo_writes_nothing:
  "fst (saveDocumentTo ''/tmp/new.txt'' editedWindow)
   \<and> \<not> fst (loadDocumentFrom (sampleEnv Yes []) ''/tmp/new.txt'' []
            (snd (saveDocumentTo ''/tmp/new.txt'' editedWindow)))
   \<and> fst (saveDocumentTo ''/tmp/report.txt'' editedWindow)
   \<and> fst (loadDocumentFrom (sampleEnv Yes []) ''/tmp/report.txt'' []
        (snd (saveDocumentTo ''/tmp/report.txt'' editedWindow)))
   \<and> m_editor_plainText editedWindow = ''# Notes!''
   \<and> m_editor_plainText (snd (loadDocumentFrom (sampleEnv Yes []) ''/tmp/report.txt'' []
        (snd (saveDocumentTo ''/tmp/report.txt'' editedWindow)))) = ''#!/bin/sh''
   \<and> m_textEncoding editedWindow = ''ISO-8859-1''
   \<and> m_textEncoding (snd (loadDocumentFrom (sampleEnv Yes []) ''/tmp/report.txt'' []
        (snd (saveDocumentTo ''/tmp/report.txt'' editedWindow)))) = ''UTF-8''
   \<and> m_lineEndingMode editedWindow = LFOnly
   \<and> m_lineEndingMode (snd (loadDocumentFrom (sampleEnv Yes []) ''/tmp/report.txt'' []
        (snd (saveDocumentTo ''/tmp/report.txt'' editedWindow)))) = CRLF"
proof -
  have missing: "files (sampleEnv Yes []) ''/tmp/new.txt'' = None"
    by (simp add: sampleEnv_def sampleFiles_def)
  have opened: "files (sampleEnv Yes []) ''/tmp/report.txt'' = Some ''#!/bin/sh''"
    by (simp add: sampleEnv_def sampleFiles_def)
  have guess: "detect (sampleEnv Yes []) prefix ''/tmp/report.txt'' =
      \<lparr>lineEndings = CRLF, textCodec = sampleCodec ''UTF-8'', bomOffset = 0\<rparr>" for prefix
    by (simp add: sampleEnv_def)
  have decoded: "decodeBlocks (sampleCodec ''UTF-8'') [] ''#!/bin/sh'' [] = [''#!/bin/sh'']"
    by (simp add: decodeBlocks_one_block DECODE_BLOCK_SIZE_def sampleCodec_def)
  have named: "codec_name (sampleCodec n) = n" for n
    by (simp add: sampleCodec_def)
  have loaded: "loadDocumentFrom (sampleEnv Yes []) ''/tmp/report.txt'' [] v =
      (True, loadContent (sampleEnv Yes []) ''/tmp/report.txt'' [] ''#!/bin/sh'' v)" for v
    by (simp add: loadDocumentFrom_def opened confirmLargeFile_def LARGE_FILE_SIZE_def)
  have before: "m_editor_plainText editedWindow = ''# Notes!''"
    "m_textEncoding editedWindow = ''ISO-8859-1''" "m_lineEndingMode editedWindow = LFOnly"
    by (simp_all add: editedWindow_def untitledWindow_def)
  have refused: "\<not> fst (loadDocumentFrom (sampleEnv Yes []) ''/tmp/new.txt'' [] v)" for v
    by (simp add: loadDocumentFrom_def missing)
  show ?thesis
    by (simp add: saveDocumentTo_def refused loaded before
          loadContent_plainText loadContent_encoding loadContent_lineEndingMode
          fst_manualCodec guess decoded named)
qed

end
